theory Spec2Isabelle
  imports Main
begin

section \<open>JavaScript values\<close>

text \<open>
  The values the server handles are JSON documents and \<^verbatim>\<open>undefined\<close>. A number is
  \<^verbatim>\<open>NaN\<close>, an integral double (\<open>NumInt\<close>, exact below \<open>2^53\<close>) or a finite
  non-integral double (\<open>NumDec\<close>, kept as the decimal text that \<^verbatim>\<open>String\<close> gives it).
  A string is its sequence of bytes. An object is the list of its properties, with
  distinct keys, in the order in which JavaScript enumerates them.
\<close>

datatype jsnum = NumNaN | NumInt int | NumDec string

datatype jsval =
    JUndefined
  | JNull
  | JBool bool
  | JNum jsnum
  | JStr string
  | JArr "jsval list"
  | JObj "(string \<times> jsval) list"

text \<open>ToBoolean: what \<^verbatim>\<open>if (v)\<close>, \<^verbatim>\<open>!v\<close> and \<^verbatim>\<open>v || w\<close> test.\<close>

fun truthy :: "jsval \<Rightarrow> bool" where
  "truthy JUndefined = False"
| "truthy JNull = False"
| "truthy (JBool b) = b"
| "truthy (JNum n) = (n \<noteq> NumNaN \<and> n \<noteq> NumInt 0)"
| "truthy (JStr s) = (s \<noteq> [])"
| "truthy (JArr xs) = True"
| "truthy (JObj kvs) = True"

definition js_or :: "jsval \<Rightarrow> jsval \<Rightarrow> jsval" where
  "js_or a b = (if truthy a then a else b)"

text \<open>An optional string field or a nullable string: \<open>None\<close> is \<^verbatim>\<open>undefined\<close>/\<^verbatim>\<open>null\<close>.\<close>

fun truthy_str :: "string option \<Rightarrow> bool" where
  "truthy_str None = False"
| "truthy_str (Some s) = (s \<noteq> [])"

definition or_undefined :: "string option \<Rightarrow> string option" where
  "or_undefined v = (if truthy_str v then v else None)"

subsection \<open>Numbers and strings\<close>

fun nat_digits :: "nat \<Rightarrow> string" where
  "nat_digits n =
     (if n < 10 then [''0123456789'' ! n]
      else nat_digits (n div 10) @ [''0123456789'' ! (n mod 10)])"

definition String_int :: "int \<Rightarrow> string" where
  "String_int i = (if i < 0 then CHR ''-'' # nat_digits (nat (- i)) else nat_digits (nat i))"

fun String_num :: "jsnum \<Rightarrow> string" where
  "String_num NumNaN = ''NaN''"
| "String_num (NumInt i) = String_int i"
| "String_num (NumDec s) = s"

fun join :: "string \<Rightarrow> string list \<Rightarrow> string" where
  "join sep [] = []"
| "join sep [x] = x"
| "join sep (x # y # ys) = x @ sep @ join sep (y # ys)"

text \<open>ToString, as \<^verbatim>\<open>String(v)\<close> and template literals apply it.\<close>

fun String_js :: "jsval \<Rightarrow> string" where
  "String_js JUndefined = ''undefined''"
| "String_js JNull = ''null''"
| "String_js (JBool b) = (if b then ''true'' else ''false'')"
| "String_js (JNum n) = String_num n"
| "String_js (JStr s) = s"
| "String_js (JArr xs) =
     join '','' (map (\<lambda>x. case x of JUndefined \<Rightarrow> [] | JNull \<Rightarrow> [] | _ \<Rightarrow> String_js x) xs)"
| "String_js (JObj kvs) = ''[object Object]''"

text \<open>
  \<^verbatim>\<open>parseInt(s, 10)\<close>: leading white space is skipped, a sign is read, then the longest
  run of decimal digits; with no digit the result is \<^verbatim>\<open>NaN\<close>. The argument is a header
  or environment value, one character a byte; the white space among the bytes is tab, line
  feed, vertical tab, form feed, carriage return, space and no-break space.
\<close>

definition is_digit :: "char \<Rightarrow> bool" where
  "is_digit c = (c \<in> set ''0123456789'')"

definition is_js_space :: "char \<Rightarrow> bool" where
  "is_js_space c = ((of_char c :: nat) \<in> {9, 10, 11, 12, 13, 32, 160})"

definition digit_val :: "char \<Rightarrow> int" where
  "digit_val c = int (of_char c) - 48"

definition digits_val :: "string \<Rightarrow> int" where
  "digits_val ds = foldl (\<lambda>acc c. 10 * acc + digit_val c) 0 ds"

definition parse_unsigned :: "string \<Rightarrow> int option" where
  "parse_unsigned s =
     (let ds = takeWhile is_digit s in if ds = [] then None else Some (digits_val ds))"

definition parseInt :: "string \<Rightarrow> jsnum" where
  "parseInt s =
     (case dropWhile is_js_space s of
        [] \<Rightarrow> NumNaN
      | c # cs \<Rightarrow>
          if c = CHR ''-'' then
            (case parse_unsigned cs of None \<Rightarrow> NumNaN | Some n \<Rightarrow> NumInt (- n))
          else if c = CHR ''+'' then
            (case parse_unsigned cs of None \<Rightarrow> NumNaN | Some n \<Rightarrow> NumInt n)
          else
            (case parse_unsigned (c # cs) of None \<Rightarrow> NumNaN | Some n \<Rightarrow> NumInt n))"

subsection \<open>JSON.stringify\<close>

text \<open>
  QuoteJSONString: the quote, the backslash and the control characters are escaped, every
  other byte is copied.
\<close>

definition hex4 :: "nat \<Rightarrow> string" where
  "hex4 n = [CHR ''0'', CHR ''0'', ''0123456789abcdef'' ! (n div 16), ''0123456789abcdef'' ! (n mod 16)]"

definition quote_char :: "char \<Rightarrow> string" where
  "quote_char c =
     (let n = (of_char c :: nat) in
      if n = 34 then [CHR 0x5C, CHR 0x22]
      else if n = 92 then [CHR 0x5C, CHR 0x5C]
      else if n = 8 then [CHR 0x5C, CHR ''b'']
      else if n = 12 then [CHR 0x5C, CHR ''f'']
      else if n = 10 then [CHR 0x5C, CHR ''n'']
      else if n = 13 then [CHR 0x5C, CHR ''r'']
      else if n = 9 then [CHR 0x5C, CHR ''t'']
      else if n < 32 then [CHR 0x5C, CHR ''u''] @ hex4 n
      else [c])"

definition quote :: "string \<Rightarrow> string" where
  "quote s = [CHR 0x22] @ concat (map quote_char s) @ [CHR 0x22]"

text \<open>
  SerializeJSONProperty with the gap \<open>gap\<close> at the indentation \<open>ind\<close>: \<open>None\<close> is
  \<^verbatim>\<open>undefined\<close>, which is what an \<^verbatim>\<open>undefined\<close> value serialises to. Inside an array
  \<^verbatim>\<open>undefined\<close> is written \<^verbatim>\<open>null\<close>; a property whose value is \<^verbatim>\<open>undefined\<close> is left out.
\<close>

definition wrap :: "string \<Rightarrow> string \<Rightarrow> string \<Rightarrow> string \<Rightarrow> string list \<Rightarrow> string" where
  "wrap gap ind opn cls partial =
     (if partial = [] then opn @ cls
      else if gap = [] then opn @ join '','' partial @ cls
      else opn @ [CHR 0x0A] @ (ind @ gap)
           @ join ('','' @ [CHR 0x0A] @ (ind @ gap)) partial
           @ [CHR 0x0A] @ ind @ cls)"

fun ser :: "string \<Rightarrow> string \<Rightarrow> jsval \<Rightarrow> string option" where
  "ser gap ind JUndefined = None"
| "ser gap ind JNull = Some ''null''"
| "ser gap ind (JBool b) = Some (if b then ''true'' else ''false'')"
| "ser gap ind (JNum n) = Some (if n = NumNaN then ''null'' else String_num n)"
| "ser gap ind (JStr s) = Some (quote s)"
| "ser gap ind (JArr xs) =
     Some (wrap gap ind ''['' '']''
       (map (\<lambda>x. case ser gap (ind @ gap) x of None \<Rightarrow> ''null'' | Some s \<Rightarrow> s) xs))"
| "ser gap ind (JObj kvs) =
     Some (wrap gap ind ''{'' ''}''
       (concat (map (\<lambda>(k, v). case ser gap (ind @ gap) v of
                                None \<Rightarrow> []
                              | Some s \<Rightarrow> [quote k @ '':'' @ (if gap = [] then [] else '' '') @ s])
                    kvs)))"

text \<open>\<^verbatim>\<open>JSON.stringify(v)\<close> and \<^verbatim>\<open>JSON.stringify(v, null, 2)\<close>.\<close>

definition JSON_stringify :: "jsval \<Rightarrow> string option" where
  "JSON_stringify v = ser [] [] v"

definition JSON_stringify2 :: "jsval \<Rightarrow> string option" where
  "JSON_stringify2 v = ser ''  '' [] v"

text \<open>A string argument that may be \<^verbatim>\<open>undefined\<close>, as a value.\<close>

fun of_opt_str :: "string option \<Rightarrow> jsval" where
  "of_opt_str None = JUndefined"
| "of_opt_str (Some s) = JStr s"

fun of_opt_num :: "jsnum option \<Rightarrow> jsval" where
  "of_opt_num None = JUndefined"
| "of_opt_num (Some n) = JNum n"

fun of_opt :: "jsval option \<Rightarrow> jsval" where
  "of_opt None = JUndefined"
| "of_opt (Some v) = v"

section \<open>Errors\<close>

text \<open>
  What the code throws. \<open>Error\<close> is a plain \<^verbatim>\<open>new Error(message)\<close>; \<open>SyntaxError\<close> and
  \<open>TypeError\<close> are the built-in errors of \<^verbatim>\<open>JSON.parse\<close> and \<^verbatim>\<open>fetch\<close>; the next five
  are the classes that client.ts imports from utils/errors.ts, each with the arguments its
  constructor is called with; \<open>ThrownValue\<close> is a thrown value that is not an
  \<^verbatim>\<open>Error\<close> instance.
\<close>

datatype js_error =
    Error string
  | SyntaxError string
  | TypeError string
  | AuthenticationError string
  | ForbiddenError string
  | NotFoundError string string
  | RateLimitError string jsnum
  | FigmaApiError jsval nat
  | ThrownValue jsval

fun instanceof_Error :: "js_error \<Rightarrow> bool" where
  "instanceof_Error (ThrownValue v) = False"
| "instanceof_Error e = True"

section \<open>HTTP headers\<close>

type_synonym headers = "(string \<times> string) list"

definition lower_char :: "char \<Rightarrow> char" where
  "lower_char c =
     (case map_of (zip ''ABCDEFGHIJKLMNOPQRSTUVWXYZ'' ''abcdefghijklmnopqrstuvwxyz'') c of
        None \<Rightarrow> c | Some d \<Rightarrow> d)"

definition same_header :: "string \<Rightarrow> string \<Rightarrow> bool" where
  "same_header a b = (map lower_char a = map lower_char b)"

text \<open>
  \<^verbatim>\<open>Headers.get(name)\<close>: header names compare without case, the values of a repeated
  header are joined, and an absent header gives \<^verbatim>\<open>null\<close>.
\<close>

definition Headers_get :: "headers \<Rightarrow> string \<Rightarrow> string option" where
  "Headers_get hs name =
     (case filter (\<lambda>(k, v). same_header k name) hs of
        [] \<Rightarrow> None
      | ms \<Rightarrow> Some (join '', '' (map snd ms)))"

section \<open>Tenant credentials (types/env.ts)\<close>

record TenantCredentials =
  accessToken :: "string option"
  baseUrl :: "string option"

text \<open>
  The incoming request, as far as the worker reads it: \<^verbatim>\<open>request.method\<close>, the path
  of \<^verbatim>\<open>new URL(request.url)\<close> and the headers.
\<close>

record Request =
  http_method :: string
  pathname :: string
  headers :: headers

definition parseTenantCredentials :: "Request \<Rightarrow> TenantCredentials" where
  "parseTenantCredentials request =
     \<lparr> accessToken = or_undefined (Headers_get (headers request) ''X-Figma-Token''),
       baseUrl = or_undefined (Headers_get (headers request) ''X-Figma-Base-URL'') \<rparr>"

definition validateCredentials :: "TenantCredentials \<Rightarrow> js_error + unit" where
  "validateCredentials credentials =
     (if \<not> truthy_str (accessToken credentials) then
        Inl (Error ''Missing credentials. Provide X-Figma-Token header with your Figma personal access token.'')
      else Inr ())"

text \<open>\<^verbatim>\<open>getEnvNumber\<close>, on the value read from the environment.\<close>

definition getEnvNumber :: "string option \<Rightarrow> jsnum \<Rightarrow> jsnum" where
  "getEnvNumber v defaultValue =
     (case v of
        Some s \<Rightarrow> (let parsed = parseInt s in if parsed = NumNaN then defaultValue else parsed)
      | None \<Rightarrow> defaultValue)"

section \<open>The API client (client.ts)\<close>

definition FIGMA_API_BASE_URL :: string where
  "FIGMA_API_BASE_URL = ''https://api.figma.com''"

subsection \<open>Options types\<close>

text \<open>
  The options interfaces of the methods. The inputs of \<^verbatim>\<open>createWebhook\<close>,
  \<^verbatim>\<open>updateWebhook\<close>, \<^verbatim>\<open>postVariables\<close> and of the dev-resource methods are passed to
  \<^verbatim>\<open>JSON.stringify\<close> as they are, and are values here.
\<close>

record GetFileOptions =
  version :: "string option"
  ids :: "string list option"
  depth :: "jsnum option"
  geometry :: "string option"
  plugin_data :: "string option"
  branch_data :: "bool option"

record GetFileNodesOptions =
  version :: "string option"
  depth :: "jsnum option"
  geometry :: "string option"
  plugin_data :: "string option"

record GetImagesOptions =
  scale :: "jsnum option"
  format :: "string option"
  svg_include_id :: "bool option"
  svg_include_node_id :: "bool option"
  svg_simplify_stroke :: "bool option"
  contents_only :: "bool option"
  use_absolute_bounds :: "bool option"
  version :: "string option"

record GetCommentsOptions =
  as_md :: "bool option"

record PostCommentOptions =
  comment_id :: "string option"
  client_meta :: "jsval option"

record GetProjectFilesOptions =
  branch_data :: "bool option"

record PaginationOptions =
  page_size :: "jsnum option"
  cursor :: "string option"

record GetWebhooksOptions =
  team_id :: "string option"

record GetDevResourcesOptions =
  node_ids :: "string list option"

record GetActivityLogsOptions =
  event_type :: "string option"
  limit :: "jsnum option"
  order :: "string option"

record GetPaymentsOptions =
  user_ids :: "string list option"

record GetAnalyticsOptions =
  cursor :: "string option"

subsection \<open>The client and its auth headers\<close>

record FigmaClientImpl =
  credentials :: TenantCredentials
  baseUrl :: string

text \<open>\<^verbatim>\<open>a || b\<close> for an optional string \<open>a\<close>.\<close>

fun str_or :: "string option \<Rightarrow> string \<Rightarrow> string" where
  "str_or None b = b"
| "str_or (Some a) b = (if a \<noteq> [] then a else b)"

definition createFigmaClient :: "TenantCredentials \<Rightarrow> FigmaClientImpl" where
  "createFigmaClient creds =
     \<lparr> credentials = creds,
       baseUrl = str_or (TenantCredentials.baseUrl creds) FIGMA_API_BASE_URL \<rparr>"

definition getAuthHeaders :: "FigmaClientImpl \<Rightarrow> js_error + headers" where
  "getAuthHeaders this =
     (case accessToken (credentials this) of
        Some tok \<Rightarrow>
          if tok \<noteq> [] then
            Inr [(''X-Figma-Token'', tok), (''Content-Type'', ''application/json'')]
          else
            Inl (AuthenticationError
              ''No credentials provided. Include X-Figma-Token header with your Figma personal access token.'')
      | None \<Rightarrow>
          Inl (AuthenticationError
            ''No credentials provided. Include X-Figma-Token header with your Figma personal access token.''))"

subsection \<open>The upstream call\<close>

text \<open>
  \<open>RequestInit\<close> is the second argument of \<^verbatim>\<open>fetch\<close>; \<open>fetch_call\<close> is one call of
  \<^verbatim>\<open>fetch(url, init)\<close>. A \<open>Response\<close> is what the upstream API answered. The runtime
  holds the two functions of the platform that the client calls: \<^verbatim>\<open>fetch\<close>, which
  answers or rejects, and \<^verbatim>\<open>JSON.parse\<close>, which returns the value or the message of its
  \<^verbatim>\<open>SyntaxError\<close>. The body of a response that has arrived is read without failure:
  \<^verbatim>\<open>response.text()\<close> is \<open>resp_body\<close> and \<^verbatim>\<open>response.json()\<close> is \<^verbatim>\<open>JSON.parse\<close> of it.
\<close>

record RequestInit =
  init_method :: "string option"
  init_body :: "string option"
  init_headers :: "headers option"

record fetch_call =
  url :: string
  init :: RequestInit

record Response =
  status :: nat
  resp_headers :: headers
  resp_body :: string

record runtime =
  fetch :: "fetch_call \<Rightarrow> js_error + Response"
  JSON_parse :: "string \<Rightarrow> string + jsval"

text \<open>The method \<^verbatim>\<open>fetch\<close> uses: \<^verbatim>\<open>GET\<close> when the init gives none.\<close>

definition fetch_method :: "fetch_call \<Rightarrow> string" where
  "fetch_method c = (case init_method (init c) of None \<Rightarrow> ''GET'' | Some m \<Rightarrow> m)"

text \<open>
  An asynchronous computation of the client: the upstream calls it issued, in order, and
  the value it resolved with or the error it rejected with.
\<close>

type_synonym 'a io = "fetch_call list \<times> (js_error + 'a)"

definition bind_io :: "'a io \<Rightarrow> ('a \<Rightarrow> 'b io) \<Rightarrow> 'b io" where
  "bind_io m f =
     (case m of
        (calls, Inl e) \<Rightarrow> (calls, Inl e)
      | (calls, Inr a) \<Rightarrow> (case f a of (calls', r) \<Rightarrow> (calls @ calls', r)))"

definition catch_io :: "'a io \<Rightarrow> (js_error \<Rightarrow> 'a io) \<Rightarrow> 'a io" where
  "catch_io m h =
     (case m of
        (calls, Inl e) \<Rightarrow> (case h e of (calls', r) \<Rightarrow> (calls @ calls', r))
      | (calls, Inr a) \<Rightarrow> (calls, Inr a))"

definition return_io :: "'a \<Rightarrow> 'a io" where
  "return_io a = ([], Inr a)"

text \<open>Object spread \<^verbatim>\<open>{...a, ...b}\<close> on string-valued objects.\<close>

definition spread :: "headers \<Rightarrow> headers \<Rightarrow> headers" where
  "spread a b =
     map (\<lambda>(k, v). (k, case map_of b k of None \<Rightarrow> v | Some w \<Rightarrow> w)) a
     @ filter (\<lambda>(k, v). k \<notin> set (map fst a)) b"

text \<open>
  Reading the property \<open>k\<close> of a parsed body, for the names the client reads
  (\<^verbatim>\<open>message\<close>, \<^verbatim>\<open>err\<close>, \<^verbatim>\<open>error\<close>): a \<^verbatim>\<open>TypeError\<close> on \<^verbatim>\<open>null\<close>, \<^verbatim>\<open>undefined\<close>
  where the property is missing and on every value that is not an object.
\<close>

fun member :: "jsval \<Rightarrow> string \<Rightarrow> js_error + jsval" where
  "member JUndefined k = Inl (TypeError ''Cannot read properties of undefined'')"
| "member JNull k = Inl (TypeError ''Cannot read properties of null'')"
| "member (JObj kvs) k = Inr (case map_of kvs k of None \<Rightarrow> JUndefined | Some v \<Rightarrow> v)"
| "member v k = Inr JUndefined"

definition response_ok :: "Response \<Rightarrow> bool" where
  "response_ok response = (200 \<le> status response \<and> status response \<le> 299)"

text \<open>
  The message of the generic API error: the \<^verbatim>\<open>try\<close> block of \<open>request\<close> with its empty
  \<^verbatim>\<open>catch\<close>.
\<close>

definition extract_message :: "jsval \<Rightarrow> jsval \<Rightarrow> js_error + jsval" where
  "extract_message errorJson message =
     (case member errorJson ''message'' of
        Inl e \<Rightarrow> Inl e
      | Inr m1 \<Rightarrow>
          if truthy m1 then Inr m1
          else (case member errorJson ''err'' of
                  Inl e \<Rightarrow> Inl e
                | Inr m2 \<Rightarrow>
                    if truthy m2 then Inr m2
                    else (case member errorJson ''error'' of
                            Inl e \<Rightarrow> Inl e
                          | Inr m3 \<Rightarrow> Inr (js_or m3 message))))"

definition error_message :: "runtime \<Rightarrow> Response \<Rightarrow> jsval" where
  "error_message rt response =
     (let errorBody = resp_body response;
          message = JStr (''API error: '' @ nat_digits (status response))
      in case JSON_parse rt errorBody of
           Inl syntax_error \<Rightarrow> message
         | Inr errorJson \<Rightarrow>
             (case extract_message errorJson message of
                Inl type_error \<Rightarrow> message
              | Inr m \<Rightarrow> m))"

text \<open>What \<open>request\<close> does with the response, from the rate-limit check on.\<close>

definition handle_response :: "runtime \<Rightarrow> string \<Rightarrow> Response \<Rightarrow> js_error + jsval" where
  "handle_response rt endpoint response =
     (if status response = 429 then
        (let retryAfter = Headers_get (resp_headers response) ''Retry-After'' in
         Inl (RateLimitError ''Rate limit exceeded''
                (case retryAfter of
                   None \<Rightarrow> NumInt 60
                 | Some s \<Rightarrow> if s \<noteq> [] then parseInt s else NumInt 60)))
      else if status response = 401 then
        Inl (AuthenticationError ''Authentication failed. Check your Figma personal access token.'')
      else if status response = 403 then
        Inl (ForbiddenError ''Access forbidden. You may not have permission to access this resource.'')
      else if status response = 404 then
        Inl (NotFoundError ''Resource'' endpoint)
      else if \<not> response_ok response then
        Inl (FigmaApiError (error_message rt response) (status response))
      else if status response = 204 then
        Inr JUndefined
      else
        (case JSON_parse rt (resp_body response) of
           Inl m \<Rightarrow> Inl (SyntaxError m)
         | Inr v \<Rightarrow> Inr v))"

text \<open>The call of \<^verbatim>\<open>fetch\<close> that \<open>request\<close> makes with the auth headers \<open>auth\<close>.\<close>

definition the_call :: "FigmaClientImpl \<Rightarrow> headers \<Rightarrow> string \<Rightarrow> RequestInit \<Rightarrow> fetch_call" where
  "the_call this auth endpoint options =
     \<lparr> url = baseUrl this @ endpoint,
       init = options \<lparr> init_headers :=
                Some (spread auth (case init_headers options of None \<Rightarrow> [] | Some h \<Rightarrow> h)) \<rparr> \<rparr>"

definition request :: "runtime \<Rightarrow> FigmaClientImpl \<Rightarrow> string \<Rightarrow> RequestInit \<Rightarrow> jsval io" where
  "request rt this endpoint options =
     (case getAuthHeaders this of
        Inl e \<Rightarrow> ([], Inl e)
      | Inr auth \<Rightarrow>
          (let call = the_call this auth endpoint options in
           case fetch rt call of
             Inl e \<Rightarrow> ([call], Inl e)
           | Inr response \<Rightarrow> ([call], handle_response rt endpoint response)))"

text \<open>The init of a call that passes no options, and of a call with a method and a body.\<close>

definition no_options :: RequestInit where
  "no_options = \<lparr> init_method = None, init_body = None, init_headers = None \<rparr>"

definition with_method :: "string \<Rightarrow> string option \<Rightarrow> RequestInit" where
  "with_method m b = \<lparr> init_method = Some m, init_body = b, init_headers = None \<rparr>"

subsection \<open>Query strings\<close>

text \<open>
  \<^verbatim>\<open>URLSearchParams\<close>: \<open>params_set\<close> replaces the value of a name or appends the pair;
  \<open>params_toString\<close> is the form-urlencoded serialisation (letters, digits and
  \<^verbatim>\<open>*-._\<close> are kept, a space becomes \<^verbatim>\<open>+\<close>, every other byte is percent-encoded).
\<close>

type_synonym params = "(string \<times> string) list"

definition params_set :: "params \<Rightarrow> string \<Rightarrow> string \<Rightarrow> params" where
  "params_set ps k v =
     (if k \<in> set (map fst ps) then
        takeWhile (\<lambda>(k', _). k' \<noteq> k) ps @ [(k, v)]
        @ filter (\<lambda>(k', _). k' \<noteq> k) (dropWhile (\<lambda>(k', _). k' \<noteq> k) ps)
      else ps @ [(k, v)])"

definition url_keep :: "char \<Rightarrow> bool" where
  "url_keep c =
     (c \<in> set ''ABCDEFGHIJKLMNOPQRSTUVWXYZabcdefghijklmnopqrstuvwxyz0123456789*-._'')"

definition urlencode_char :: "char \<Rightarrow> string" where
  "urlencode_char c =
     (if url_keep c then [c]
      else if c = CHR '' '' then ''+''
      else [CHR ''%'', ''0123456789ABCDEF'' ! ((of_char c :: nat) div 16),
            ''0123456789ABCDEF'' ! ((of_char c :: nat) mod 16)])"

definition urlencode :: "string \<Rightarrow> string" where
  "urlencode s = concat (map urlencode_char s)"

definition params_toString :: "params \<Rightarrow> string" where
  "params_toString ps = join ''&'' (map (\<lambda>(k, v). urlencode k @ ''='' @ urlencode v) ps)"

text \<open>The suffix \<^verbatim>\<open>${query ? `?${query}` : ''}\<close>.\<close>

definition query_suffix :: "string \<Rightarrow> string" where
  "query_suffix query = (if query \<noteq> [] then ''?'' @ query else [])"

text \<open>
  The guarded \<^verbatim>\<open>params.set\<close> statements of the methods: \<^verbatim>\<open>if (x) params.set(k, x)\<close> for an
  optional string, the same with \<^verbatim>\<open>x.join(',')\<close> for an optional array (an array is
  truthy also when empty), \<^verbatim>\<open>if (x !== undefined) params.set(k, String(x))\<close> and
  \<^verbatim>\<open>if (x) params.set(k, String(x))\<close> for an optional number, and
  \<^verbatim>\<open>if (x) params.set(k, 'true')\<close> for an optional boolean.
\<close>

definition set_str :: "string \<Rightarrow> string option \<Rightarrow> params \<Rightarrow> params" where
  "set_str k x ps = (case x of None \<Rightarrow> ps | Some s \<Rightarrow> if s \<noteq> [] then params_set ps k s else ps)"

definition set_list :: "string \<Rightarrow> string list option \<Rightarrow> params \<Rightarrow> params" where
  "set_list k x ps = (case x of None \<Rightarrow> ps | Some xs \<Rightarrow> params_set ps k (join '','' xs))"

definition set_num_defined :: "string \<Rightarrow> jsnum option \<Rightarrow> params \<Rightarrow> params" where
  "set_num_defined k x ps = (case x of None \<Rightarrow> ps | Some n \<Rightarrow> params_set ps k (String_num n))"

definition set_num :: "string \<Rightarrow> jsnum option \<Rightarrow> params \<Rightarrow> params" where
  "set_num k x ps =
     (case x of None \<Rightarrow> ps
      | Some n \<Rightarrow> if truthy (JNum n) then params_set ps k (String_num n) else ps)"

definition set_flag :: "string \<Rightarrow> bool option \<Rightarrow> params \<Rightarrow> params" where
  "set_flag k x ps = (case x of None \<Rightarrow> ps | Some b \<Rightarrow> if b then params_set ps k ''true'' else ps)"

text \<open>\<^verbatim>\<open>options?.field\<close> for an optional options argument.\<close>

definition opt :: "('o \<Rightarrow> 'a option) \<Rightarrow> 'o option \<Rightarrow> 'a option" where
  "opt f options = (case options of None \<Rightarrow> None | Some v \<Rightarrow> f v)"

subsection \<open>The methods of the client\<close>

definition getFile :: "runtime \<Rightarrow> FigmaClientImpl \<Rightarrow> string \<Rightarrow> GetFileOptions option \<Rightarrow> jsval io" where
  "getFile rt this fileKey options =
     (let params = [];
          params = set_str ''version'' (opt GetFileOptions.version options) params;
          params = set_list ''ids'' (opt GetFileOptions.ids options) params;
          params = set_num_defined ''depth'' (opt GetFileOptions.depth options) params;
          params = set_str ''geometry'' (opt GetFileOptions.geometry options) params;
          params = set_str ''plugin_data'' (opt GetFileOptions.plugin_data options) params;
          params = set_flag ''branch_data'' (opt GetFileOptions.branch_data options) params;
          query = params_toString params
      in request rt this (''/v1/files/'' @ fileKey @ query_suffix query) no_options)"

definition getFileNodes ::
    "runtime \<Rightarrow> FigmaClientImpl \<Rightarrow> string \<Rightarrow> string list \<Rightarrow> GetFileNodesOptions option \<Rightarrow> jsval io" where
  "getFileNodes rt this fileKey ids' options =
     (let params = [];
          params = params_set params ''ids'' (join '','' ids');
          params = set_str ''version'' (opt GetFileNodesOptions.version options) params;
          params = set_num_defined ''depth'' (opt GetFileNodesOptions.depth options) params;
          params = set_str ''geometry'' (opt GetFileNodesOptions.geometry options) params;
          params = set_str ''plugin_data'' (opt GetFileNodesOptions.plugin_data options) params
      in request rt this (''/v1/files/'' @ fileKey @ ''/nodes?'' @ params_toString params) no_options)"

definition getFileMeta :: "runtime \<Rightarrow> FigmaClientImpl \<Rightarrow> string \<Rightarrow> jsval io" where
  "getFileMeta rt this fileKey = request rt this (''/v1/files/'' @ fileKey @ ''/meta'') no_options"

definition getImages ::
    "runtime \<Rightarrow> FigmaClientImpl \<Rightarrow> string \<Rightarrow> string list \<Rightarrow> GetImagesOptions option \<Rightarrow> jsval io" where
  "getImages rt this fileKey ids' options =
     (let params = [];
          params = params_set params ''ids'' (join '','' ids');
          params = set_num_defined ''scale'' (opt scale options) params;
          params = set_str ''format'' (opt format options) params;
          params = set_flag ''svg_include_id'' (opt svg_include_id options) params;
          params = set_flag ''svg_include_node_id'' (opt svg_include_node_id options) params;
          params = set_flag ''svg_simplify_stroke'' (opt svg_simplify_stroke options) params;
          params = set_flag ''contents_only'' (opt contents_only options) params;
          params = set_flag ''use_absolute_bounds'' (opt use_absolute_bounds options) params;
          params = set_str ''version'' (opt GetImagesOptions.version options) params
      in request rt this (''/v1/images/'' @ fileKey @ ''?'' @ params_toString params) no_options)"

definition getImageFills :: "runtime \<Rightarrow> FigmaClientImpl \<Rightarrow> string \<Rightarrow> jsval io" where
  "getImageFills rt this fileKey = request rt this (''/v1/files/'' @ fileKey @ ''/images'') no_options"

definition getFileVersions ::
    "runtime \<Rightarrow> FigmaClientImpl \<Rightarrow> string \<Rightarrow> PaginationOptions option \<Rightarrow> jsval io" where
  "getFileVersions rt this fileKey options =
     (let params = [];
          params = set_num ''page_size'' (opt page_size options) params;
          params = set_str ''cursor'' (opt PaginationOptions.cursor options) params;
          query = params_toString params
      in request rt this (''/v1/files/'' @ fileKey @ ''/versions'' @ query_suffix query) no_options)"

definition getComments ::
    "runtime \<Rightarrow> FigmaClientImpl \<Rightarrow> string \<Rightarrow> GetCommentsOptions option \<Rightarrow> jsval io" where
  "getComments rt this fileKey options =
     (let params = [];
          params = set_flag ''as_md'' (opt as_md options) params;
          query = params_toString params
      in request rt this (''/v1/files/'' @ fileKey @ ''/comments'' @ query_suffix query) no_options)"

definition postComment ::
    "runtime \<Rightarrow> FigmaClientImpl \<Rightarrow> string \<Rightarrow> string \<Rightarrow> PostCommentOptions option \<Rightarrow> jsval io" where
  "postComment rt this fileKey message options =
     request rt this (''/v1/files/'' @ fileKey @ ''/comments'')
       (with_method ''POST''
          (JSON_stringify (JObj [(''message'', JStr message),
                                 (''comment_id'', of_opt_str (opt comment_id options)),
                                 (''client_meta'', of_opt (opt client_meta options))])))"

definition deleteComment :: "runtime \<Rightarrow> FigmaClientImpl \<Rightarrow> string \<Rightarrow> string \<Rightarrow> jsval io" where
  "deleteComment rt this fileKey commentId =
     bind_io (request rt this (''/v1/files/'' @ fileKey @ ''/comments/'' @ commentId)
                (with_method ''DELETE'' None))
       (\<lambda>_. return_io JUndefined)"

definition getCommentReactions ::
    "runtime \<Rightarrow> FigmaClientImpl \<Rightarrow> string \<Rightarrow> string \<Rightarrow> PaginationOptions option \<Rightarrow> jsval io" where
  "getCommentReactions rt this fileKey commentId options =
     (let params = [];
          params = set_str ''cursor'' (opt PaginationOptions.cursor options) params;
          query = params_toString params
      in request rt this
           (''/v1/files/'' @ fileKey @ ''/comments/'' @ commentId @ ''/reactions'' @ query_suffix query)
           no_options)"

definition postCommentReaction ::
    "runtime \<Rightarrow> FigmaClientImpl \<Rightarrow> string \<Rightarrow> string \<Rightarrow> string \<Rightarrow> jsval io" where
  "postCommentReaction rt this fileKey commentId emoji =
     bind_io (request rt this (''/v1/files/'' @ fileKey @ ''/comments/'' @ commentId @ ''/reactions'')
                (with_method ''POST'' (JSON_stringify (JObj [(''emoji'', JStr emoji)]))))
       (\<lambda>_. return_io JUndefined)"

definition deleteCommentReaction ::
    "runtime \<Rightarrow> FigmaClientImpl \<Rightarrow> string \<Rightarrow> string \<Rightarrow> string \<Rightarrow> jsval io" where
  "deleteCommentReaction rt this fileKey commentId emoji =
     (let params = [];
          params = params_set params ''emoji'' emoji
      in bind_io (request rt this
                    (''/v1/files/'' @ fileKey @ ''/comments/'' @ commentId @ ''/reactions?''
                       @ params_toString params)
                    (with_method ''DELETE'' None))
           (\<lambda>_. return_io JUndefined))"

definition getMe :: "runtime \<Rightarrow> FigmaClientImpl \<Rightarrow> jsval io" where
  "getMe rt this = request rt this ''/v1/me'' no_options"

definition getTeamProjects :: "runtime \<Rightarrow> FigmaClientImpl \<Rightarrow> string \<Rightarrow> jsval io" where
  "getTeamProjects rt this teamId = request rt this (''/v1/teams/'' @ teamId @ ''/projects'') no_options"

definition getProjectFiles ::
    "runtime \<Rightarrow> FigmaClientImpl \<Rightarrow> string \<Rightarrow> GetProjectFilesOptions option \<Rightarrow> jsval io" where
  "getProjectFiles rt this projectId options =
     (let params = [];
          params = set_flag ''branch_data'' (opt GetProjectFilesOptions.branch_data options) params;
          query = params_toString params
      in request rt this (''/v1/projects/'' @ projectId @ ''/files'' @ query_suffix query) no_options)"

definition getTeamComponents ::
    "runtime \<Rightarrow> FigmaClientImpl \<Rightarrow> string \<Rightarrow> PaginationOptions option \<Rightarrow> jsval io" where
  "getTeamComponents rt this teamId options =
     (let params = [];
          params = set_num ''page_size'' (opt page_size options) params;
          params = set_str ''cursor'' (opt PaginationOptions.cursor options) params;
          query = params_toString params
      in request rt this (''/v1/teams/'' @ teamId @ ''/components'' @ query_suffix query) no_options)"

definition getFileComponents :: "runtime \<Rightarrow> FigmaClientImpl \<Rightarrow> string \<Rightarrow> jsval io" where
  "getFileComponents rt this fileKey =
     request rt this (''/v1/files/'' @ fileKey @ ''/components'') no_options"

definition getComponent :: "runtime \<Rightarrow> FigmaClientImpl \<Rightarrow> string \<Rightarrow> jsval io" where
  "getComponent rt this componentKey = request rt this (''/v1/components/'' @ componentKey) no_options"

definition getTeamComponentSets ::
    "runtime \<Rightarrow> FigmaClientImpl \<Rightarrow> string \<Rightarrow> PaginationOptions option \<Rightarrow> jsval io" where
  "getTeamComponentSets rt this teamId options =
     (let params = [];
          params = set_num ''page_size'' (opt page_size options) params;
          params = set_str ''cursor'' (opt PaginationOptions.cursor options) params;
          query = params_toString params
      in request rt this (''/v1/teams/'' @ teamId @ ''/component_sets'' @ query_suffix query) no_options)"

definition getFileComponentSets :: "runtime \<Rightarrow> FigmaClientImpl \<Rightarrow> string \<Rightarrow> jsval io" where
  "getFileComponentSets rt this fileKey =
     request rt this (''/v1/files/'' @ fileKey @ ''/component_sets'') no_options"

definition getComponentSet :: "runtime \<Rightarrow> FigmaClientImpl \<Rightarrow> string \<Rightarrow> jsval io" where
  "getComponentSet rt this componentSetKey =
     request rt this (''/v1/component_sets/'' @ componentSetKey) no_options"

definition getTeamStyles ::
    "runtime \<Rightarrow> FigmaClientImpl \<Rightarrow> string \<Rightarrow> PaginationOptions option \<Rightarrow> jsval io" where
  "getTeamStyles rt this teamId options =
     (let params = [];
          params = set_num ''page_size'' (opt page_size options) params;
          params = set_str ''cursor'' (opt PaginationOptions.cursor options) params;
          query = params_toString params
      in request rt this (''/v1/teams/'' @ teamId @ ''/styles'' @ query_suffix query) no_options)"

definition getFileStyles :: "runtime \<Rightarrow> FigmaClientImpl \<Rightarrow> string \<Rightarrow> jsval io" where
  "getFileStyles rt this fileKey = request rt this (''/v1/files/'' @ fileKey @ ''/styles'') no_options"

definition getStyle :: "runtime \<Rightarrow> FigmaClientImpl \<Rightarrow> string \<Rightarrow> jsval io" where
  "getStyle rt this styleKey = request rt this (''/v1/styles/'' @ styleKey) no_options"

definition getWebhooks :: "runtime \<Rightarrow> FigmaClientImpl \<Rightarrow> GetWebhooksOptions option \<Rightarrow> jsval io" where
  "getWebhooks rt this options =
     (let params = [];
          params = set_str ''team_id'' (opt GetWebhooksOptions.team_id options) params;
          query = params_toString params
      in request rt this (''/v2/webhooks'' @ query_suffix query) no_options)"

definition createWebhook :: "runtime \<Rightarrow> FigmaClientImpl \<Rightarrow> jsval \<Rightarrow> jsval io" where
  "createWebhook rt this input =
     request rt this ''/v2/webhooks'' (with_method ''POST'' (JSON_stringify input))"

definition getWebhook :: "runtime \<Rightarrow> FigmaClientImpl \<Rightarrow> string \<Rightarrow> jsval io" where
  "getWebhook rt this webhookId = request rt this (''/v2/webhooks/'' @ webhookId) no_options"

definition updateWebhook :: "runtime \<Rightarrow> FigmaClientImpl \<Rightarrow> string \<Rightarrow> jsval \<Rightarrow> jsval io" where
  "updateWebhook rt this webhookId input =
     request rt this (''/v2/webhooks/'' @ webhookId) (with_method ''PUT'' (JSON_stringify input))"

definition deleteWebhook :: "runtime \<Rightarrow> FigmaClientImpl \<Rightarrow> string \<Rightarrow> jsval io" where
  "deleteWebhook rt this webhookId =
     bind_io (request rt this (''/v2/webhooks/'' @ webhookId) (with_method ''DELETE'' None))
       (\<lambda>_. return_io JUndefined)"

definition getWebhookRequests :: "runtime \<Rightarrow> FigmaClientImpl \<Rightarrow> string \<Rightarrow> jsval io" where
  "getWebhookRequests rt this webhookId =
     request rt this (''/v2/webhooks/'' @ webhookId @ ''/requests'') no_options"

definition getLocalVariables :: "runtime \<Rightarrow> FigmaClientImpl \<Rightarrow> string \<Rightarrow> jsval io" where
  "getLocalVariables rt this fileKey =
     request rt this (''/v1/files/'' @ fileKey @ ''/variables/local'') no_options"

definition getPublishedVariables :: "runtime \<Rightarrow> FigmaClientImpl \<Rightarrow> string \<Rightarrow> jsval io" where
  "getPublishedVariables rt this fileKey =
     request rt this (''/v1/files/'' @ fileKey @ ''/variables/published'') no_options"

definition postVariables :: "runtime \<Rightarrow> FigmaClientImpl \<Rightarrow> string \<Rightarrow> jsval \<Rightarrow> jsval io" where
  "postVariables rt this fileKey payload =
     request rt this (''/v1/files/'' @ fileKey @ ''/variables'')
       (with_method ''POST'' (JSON_stringify payload))"

definition getDevResources ::
    "runtime \<Rightarrow> FigmaClientImpl \<Rightarrow> string \<Rightarrow> GetDevResourcesOptions option \<Rightarrow> jsval io" where
  "getDevResources rt this fileKey options =
     (let params = [];
          params = set_list ''node_ids'' (opt node_ids options) params;
          query = params_toString params
      in request rt this (''/v1/files/'' @ fileKey @ ''/dev_resources'' @ query_suffix query) no_options)"

definition createDevResources :: "runtime \<Rightarrow> FigmaClientImpl \<Rightarrow> jsval list \<Rightarrow> jsval io" where
  "createDevResources rt this resources =
     request rt this ''/v1/dev_resources''
       (with_method ''POST'' (JSON_stringify (JObj [(''dev_resources'', JArr resources)])))"

definition updateDevResources :: "runtime \<Rightarrow> FigmaClientImpl \<Rightarrow> jsval list \<Rightarrow> jsval io" where
  "updateDevResources rt this resources =
     request rt this ''/v1/dev_resources''
       (with_method ''PUT'' (JSON_stringify (JObj [(''dev_resources'', JArr resources)])))"

definition deleteDevResource :: "runtime \<Rightarrow> FigmaClientImpl \<Rightarrow> string \<Rightarrow> string \<Rightarrow> jsval io" where
  "deleteDevResource rt this fileKey devResourceId =
     bind_io (request rt this (''/v1/files/'' @ fileKey @ ''/dev_resources/'' @ devResourceId)
                (with_method ''DELETE'' None))
       (\<lambda>_. return_io JUndefined)"

definition getActivityLogs ::
    "runtime \<Rightarrow> FigmaClientImpl \<Rightarrow> GetActivityLogsOptions option \<Rightarrow> jsval io" where
  "getActivityLogs rt this options =
     (let params = [];
          params = set_str ''event_type'' (opt GetActivityLogsOptions.event_type options) params;
          params = set_num ''limit'' (opt limit options) params;
          params = set_str ''order'' (opt GetActivityLogsOptions.order options) params;
          query = params_toString params
      in request rt this (''/v1/activity_logs'' @ query_suffix query) no_options)"

definition getPayments :: "runtime \<Rightarrow> FigmaClientImpl \<Rightarrow> GetPaymentsOptions option \<Rightarrow> jsval io" where
  "getPayments rt this options =
     (let params = [];
          params = set_list ''user_ids'' (opt user_ids options) params;
          query = params_toString params
      in request rt this (''/v1/payments'' @ query_suffix query) no_options)"

definition getComponentActions ::
    "runtime \<Rightarrow> FigmaClientImpl \<Rightarrow> string \<Rightarrow> GetAnalyticsOptions option \<Rightarrow> jsval io" where
  "getComponentActions rt this fileKey options =
     (let params = [];
          params = set_str ''cursor'' (opt GetAnalyticsOptions.cursor options) params;
          query = params_toString params
      in request rt this
           (''/v1/analytics/libraries/'' @ fileKey @ ''/component/actions'' @ query_suffix query)
           no_options)"

definition getComponentUsages ::
    "runtime \<Rightarrow> FigmaClientImpl \<Rightarrow> string \<Rightarrow> GetAnalyticsOptions option \<Rightarrow> jsval io" where
  "getComponentUsages rt this fileKey options =
     (let params = [];
          params = set_str ''cursor'' (opt GetAnalyticsOptions.cursor options) params;
          query = params_toString params
      in request rt this
           (''/v1/analytics/libraries/'' @ fileKey @ ''/component/usages'' @ query_suffix query)
           no_options)"

definition getStyleActions ::
    "runtime \<Rightarrow> FigmaClientImpl \<Rightarrow> string \<Rightarrow> GetAnalyticsOptions option \<Rightarrow> jsval io" where
  "getStyleActions rt this fileKey options =
     (let params = [];
          params = set_str ''cursor'' (opt GetAnalyticsOptions.cursor options) params;
          query = params_toString params
      in request rt this
           (''/v1/analytics/libraries/'' @ fileKey @ ''/style/actions'' @ query_suffix query)
           no_options)"

definition getStyleUsages ::
    "runtime \<Rightarrow> FigmaClientImpl \<Rightarrow> string \<Rightarrow> GetAnalyticsOptions option \<Rightarrow> jsval io" where
  "getStyleUsages rt this fileKey options =
     (let params = [];
          params = set_str ''cursor'' (opt GetAnalyticsOptions.cursor options) params;
          query = params_toString params
      in request rt this
           (''/v1/analytics/libraries/'' @ fileKey @ ''/style/usages'' @ query_suffix query)
           no_options)"

subsection \<open>Operations\<close>

text \<open>
  One constructor for each method of the \<^verbatim>\<open>FigmaClient\<close> interface that issues its own
  request, with the arguments of the method, grouped as the interface groups them;
  \<open>perform\<close> calls the method. (\<^verbatim>\<open>testConnection\<close>, which is built on \<^verbatim>\<open>getMe\<close>,
  follows below.) \<open>returns_void\<close> marks the methods declared \<^verbatim>\<open>Promise<void>\<close>, which
  await the request and return nothing.
\<close>

datatype file_op =
    GetFile string "GetFileOptions option"
  | GetFileNodes string "string list" "GetFileNodesOptions option"
  | GetFileMeta string
  | GetImages string "string list" "GetImagesOptions option"
  | GetImageFills string
  | GetFileVersions string "PaginationOptions option"

fun perform_file_op :: "runtime \<Rightarrow> FigmaClientImpl \<Rightarrow> file_op \<Rightarrow> jsval io" where
  "perform_file_op rt this (GetFile a b) = getFile rt this a b"
| "perform_file_op rt this (GetFileNodes a b c) = getFileNodes rt this a b c"
| "perform_file_op rt this (GetFileMeta a) = getFileMeta rt this a"
| "perform_file_op rt this (GetImages a b c) = getImages rt this a b c"
| "perform_file_op rt this (GetImageFills a) = getImageFills rt this a"
| "perform_file_op rt this (GetFileVersions a b) = getFileVersions rt this a b"

fun void_file_op :: "file_op \<Rightarrow> bool" where
  "void_file_op (GetFile a b) = False"
| "void_file_op (GetFileNodes a b c) = False"
| "void_file_op (GetFileMeta a) = False"
| "void_file_op (GetImages a b c) = False"
| "void_file_op (GetImageFills a) = False"
| "void_file_op (GetFileVersions a b) = False"

datatype comment_op =
    GetComments string "GetCommentsOptions option"
  | PostComment string string "PostCommentOptions option"
  | DeleteComment string string
  | GetCommentReactions string string "PaginationOptions option"
  | PostCommentReaction string string string
  | DeleteCommentReaction string string string

fun perform_comment_op :: "runtime \<Rightarrow> FigmaClientImpl \<Rightarrow> comment_op \<Rightarrow> jsval io" where
  "perform_comment_op rt this (GetComments a b) = getComments rt this a b"
| "perform_comment_op rt this (PostComment a b c) = postComment rt this a b c"
| "perform_comment_op rt this (DeleteComment a b) = deleteComment rt this a b"
| "perform_comment_op rt this (GetCommentReactions a b c) = getCommentReactions rt this a b c"
| "perform_comment_op rt this (PostCommentReaction a b c) = postCommentReaction rt this a b c"
| "perform_comment_op rt this (DeleteCommentReaction a b c) = deleteCommentReaction rt this a b c"

fun void_comment_op :: "comment_op \<Rightarrow> bool" where
  "void_comment_op (GetComments a b) = False"
| "void_comment_op (PostComment a b c) = False"
| "void_comment_op (DeleteComment a b) = True"
| "void_comment_op (GetCommentReactions a b c) = False"
| "void_comment_op (PostCommentReaction a b c) = True"
| "void_comment_op (DeleteCommentReaction a b c) = True"

datatype account_op =
    GetMe
  | GetTeamProjects string
  | GetProjectFiles string "GetProjectFilesOptions option"
  | GetActivityLogs "GetActivityLogsOptions option"
  | GetPayments "GetPaymentsOptions option"

fun perform_account_op :: "runtime \<Rightarrow> FigmaClientImpl \<Rightarrow> account_op \<Rightarrow> jsval io" where
  "perform_account_op rt this GetMe = getMe rt this"
| "perform_account_op rt this (GetTeamProjects a) = getTeamProjects rt this a"
| "perform_account_op rt this (GetProjectFiles a b) = getProjectFiles rt this a b"
| "perform_account_op rt this (GetActivityLogs a) = getActivityLogs rt this a"
| "perform_account_op rt this (GetPayments a) = getPayments rt this a"

fun void_account_op :: "account_op \<Rightarrow> bool" where
  "void_account_op GetMe = False"
| "void_account_op (GetTeamProjects a) = False"
| "void_account_op (GetProjectFiles a b) = False"
| "void_account_op (GetActivityLogs a) = False"
| "void_account_op (GetPayments a) = False"

datatype library_op =
    GetTeamComponents string "PaginationOptions option"
  | GetFileComponents string
  | GetComponent string
  | GetTeamComponentSets string "PaginationOptions option"
  | GetFileComponentSets string
  | GetComponentSet string
  | GetTeamStyles string "PaginationOptions option"
  | GetFileStyles string
  | GetStyle string

fun perform_library_op :: "runtime \<Rightarrow> FigmaClientImpl \<Rightarrow> library_op \<Rightarrow> jsval io" where
  "perform_library_op rt this (GetTeamComponents a b) = getTeamComponents rt this a b"
| "perform_library_op rt this (GetFileComponents a) = getFileComponents rt this a"
| "perform_library_op rt this (GetComponent a) = getComponent rt this a"
| "perform_library_op rt this (GetTeamComponentSets a b) = getTeamComponentSets rt this a b"
| "perform_library_op rt this (GetFileComponentSets a) = getFileComponentSets rt this a"
| "perform_library_op rt this (GetComponentSet a) = getComponentSet rt this a"
| "perform_library_op rt this (GetTeamStyles a b) = getTeamStyles rt this a b"
| "perform_library_op rt this (GetFileStyles a) = getFileStyles rt this a"
| "perform_library_op rt this (GetStyle a) = getStyle rt this a"

fun void_library_op :: "library_op \<Rightarrow> bool" where
  "void_library_op (GetTeamComponents a b) = False"
| "void_library_op (GetFileComponents a) = False"
| "void_library_op (GetComponent a) = False"
| "void_library_op (GetTeamComponentSets a b) = False"
| "void_library_op (GetFileComponentSets a) = False"
| "void_library_op (GetComponentSet a) = False"
| "void_library_op (GetTeamStyles a b) = False"
| "void_library_op (GetFileStyles a) = False"
| "void_library_op (GetStyle a) = False"

datatype webhook_op =
    GetWebhooks "GetWebhooksOptions option"
  | CreateWebhook jsval
  | GetWebhook string
  | UpdateWebhook string jsval
  | DeleteWebhook string
  | GetWebhookRequests string

fun perform_webhook_op :: "runtime \<Rightarrow> FigmaClientImpl \<Rightarrow> webhook_op \<Rightarrow> jsval io" where
  "perform_webhook_op rt this (GetWebhooks a) = getWebhooks rt this a"
| "perform_webhook_op rt this (CreateWebhook a) = createWebhook rt this a"
| "perform_webhook_op rt this (GetWebhook a) = getWebhook rt this a"
| "perform_webhook_op rt this (UpdateWebhook a b) = updateWebhook rt this a b"
| "perform_webhook_op rt this (DeleteWebhook a) = deleteWebhook rt this a"
| "perform_webhook_op rt this (GetWebhookRequests a) = getWebhookRequests rt this a"

fun void_webhook_op :: "webhook_op \<Rightarrow> bool" where
  "void_webhook_op (GetWebhooks a) = False"
| "void_webhook_op (CreateWebhook a) = False"
| "void_webhook_op (GetWebhook a) = False"
| "void_webhook_op (UpdateWebhook a b) = False"
| "void_webhook_op (DeleteWebhook a) = True"
| "void_webhook_op (GetWebhookRequests a) = False"

datatype variable_op =
    GetLocalVariables string
  | GetPublishedVariables string
  | PostVariables string jsval
  | GetDevResources string "GetDevResourcesOptions option"
  | CreateDevResources "jsval list"
  | UpdateDevResources "jsval list"
  | DeleteDevResource string string

fun perform_variable_op :: "runtime \<Rightarrow> FigmaClientImpl \<Rightarrow> variable_op \<Rightarrow> jsval io" where
  "perform_variable_op rt this (GetLocalVariables a) = getLocalVariables rt this a"
| "perform_variable_op rt this (GetPublishedVariables a) = getPublishedVariables rt this a"
| "perform_variable_op rt this (PostVariables a b) = postVariables rt this a b"
| "perform_variable_op rt this (GetDevResources a b) = getDevResources rt this a b"
| "perform_variable_op rt this (CreateDevResources a) = createDevResources rt this a"
| "perform_variable_op rt this (UpdateDevResources a) = updateDevResources rt this a"
| "perform_variable_op rt this (DeleteDevResource a b) = deleteDevResource rt this a b"

fun void_variable_op :: "variable_op \<Rightarrow> bool" where
  "void_variable_op (GetLocalVariables a) = False"
| "void_variable_op (GetPublishedVariables a) = False"
| "void_variable_op (PostVariables a b) = False"
| "void_variable_op (GetDevResources a b) = False"
| "void_variable_op (CreateDevResources a) = False"
| "void_variable_op (UpdateDevResources a) = False"
| "void_variable_op (DeleteDevResource a b) = True"

datatype analytics_op =
    GetComponentActions string "GetAnalyticsOptions option"
  | GetComponentUsages string "GetAnalyticsOptions option"
  | GetStyleActions string "GetAnalyticsOptions option"
  | GetStyleUsages string "GetAnalyticsOptions option"

fun perform_analytics_op :: "runtime \<Rightarrow> FigmaClientImpl \<Rightarrow> analytics_op \<Rightarrow> jsval io" where
  "perform_analytics_op rt this (GetComponentActions a b) = getComponentActions rt this a b"
| "perform_analytics_op rt this (GetComponentUsages a b) = getComponentUsages rt this a b"
| "perform_analytics_op rt this (GetStyleActions a b) = getStyleActions rt this a b"
| "perform_analytics_op rt this (GetStyleUsages a b) = getStyleUsages rt this a b"

fun void_analytics_op :: "analytics_op \<Rightarrow> bool" where
  "void_analytics_op (GetComponentActions a b) = False"
| "void_analytics_op (GetComponentUsages a b) = False"
| "void_analytics_op (GetStyleActions a b) = False"
| "void_analytics_op (GetStyleUsages a b) = False"

datatype operation =
    FileOp file_op
  | CommentOp comment_op
  | AccountOp account_op
  | LibraryOp library_op
  | WebhookOp webhook_op
  | VariableOp variable_op
  | AnalyticsOp analytics_op

fun perform :: "runtime \<Rightarrow> FigmaClientImpl \<Rightarrow> operation \<Rightarrow> jsval io" where
  "perform rt this (FileOp x) = perform_file_op rt this x"
| "perform rt this (CommentOp x) = perform_comment_op rt this x"
| "perform rt this (AccountOp x) = perform_account_op rt this x"
| "perform rt this (LibraryOp x) = perform_library_op rt this x"
| "perform rt this (WebhookOp x) = perform_webhook_op rt this x"
| "perform rt this (VariableOp x) = perform_variable_op rt this x"
| "perform rt this (AnalyticsOp x) = perform_analytics_op rt this x"

fun returns_void :: "operation \<Rightarrow> bool" where
  "returns_void (FileOp x) = void_file_op x"
| "returns_void (CommentOp x) = void_comment_op x"
| "returns_void (AccountOp x) = void_account_op x"
| "returns_void (LibraryOp x) = void_library_op x"
| "returns_void (WebhookOp x) = void_webhook_op x"
| "returns_void (VariableOp x) = void_variable_op x"
| "returns_void (AnalyticsOp x) = void_analytics_op x"

subsection \<open>The composite operation\<close>

text \<open>
  utils/errors.ts, which declares the error classes and \<^verbatim>\<open>formatErrorForLogging\<close>, is
  not among the sources. What the code reads from it is a parameter: the \<^verbatim>\<open>message\<close>
  property that a class gives its instances, whether an error is an instance of
  \<^verbatim>\<open>FigmaApiError\<close>, its \<^verbatim>\<open>retryable\<close> flag, and the details object that
  \<^verbatim>\<open>formatErrorForLogging\<close> returns. The classes are taken to extend \<^verbatim>\<open>Error\<close>.
\<close>

record errors_module =
  class_message :: "js_error \<Rightarrow> string"
  instanceof_FigmaApiError :: "js_error \<Rightarrow> bool"
  retryable :: "js_error \<Rightarrow> bool"
  formatErrorForLogging :: "js_error \<Rightarrow> jsval"

text \<open>\<^verbatim>\<open>error.message\<close> of an \<^verbatim>\<open>Error\<close> instance.\<close>

fun message_of :: "errors_module \<Rightarrow> js_error \<Rightarrow> string" where
  "message_of errs (Error m) = m"
| "message_of errs (SyntaxError m) = m"
| "message_of errs (TypeError m) = m"
| "message_of errs e = class_message errs e"

definition testConnection :: "runtime \<Rightarrow> errors_module \<Rightarrow> FigmaClientImpl \<Rightarrow> jsval io" where
  "testConnection rt errs this =
     catch_io
       (bind_io (getMe rt this)
          (\<lambda>user. return_io
             (JObj [(''connected'', JBool True),
                    (''message'', JStr ''Successfully connected to Figma API''),
                    (''user'', user)])))
       (\<lambda>error. return_io
          (JObj [(''connected'', JBool False),
                 (''message'', JStr (if instanceof_Error error then message_of errs error
                                     else ''Connection failed''))]))"

section \<open>Response formatting (utils/formatters.ts)\<close>

text \<open>
  A \<^verbatim>\<open>ToolResponse\<close> is the object the handler returns. \<open>text_of\<close> is the value of a
  \<^verbatim>\<open>text\<close> property computed by \<^verbatim>\<open>JSON.stringify\<close>: a string, or \<^verbatim>\<open>undefined\<close>.
\<close>

fun text_of :: "string option \<Rightarrow> jsval" where
  "text_of None = JUndefined"
| "text_of (Some s) = JStr s"

definition formatResponse :: "jsval \<Rightarrow> jsval" where
  "formatResponse data =
     JObj [(''content'', JArr [JObj [(''type'', JStr ''text''),
                                     (''text'', text_of (JSON_stringify2 data))]])]"

definition formatError :: "errors_module \<Rightarrow> js_error \<Rightarrow> jsval" where
  "formatError errs error =
     (let errorInfo = formatErrorForLogging errs error;
          message =
            (if instanceof_FigmaApiError errs error then
               (let message = ''Error: '' @ message_of errs error in
                if retryable errs error then message @ '' (retryable)'' else message)
             else (case error of
                     ThrownValue v \<Rightarrow> ''Error: '' @ String_js v
                   | _ \<Rightarrow> ''Error: '' @ message_of errs error))
      in JObj [(''content'',
                JArr [JObj [(''type'', JStr ''text''),
                            (''text'', text_of (JSON_stringify2
                               (JObj [(''error'', JStr message), (''details'', errorInfo)])))]]),
               (''isError'', JBool True)])"

text \<open>\<open>formatSuccess\<close>; an omitted \<open>data\<close> is \<^verbatim>\<open>undefined\<close>.\<close>

definition formatSuccess :: "string \<Rightarrow> jsval \<Rightarrow> jsval" where
  "formatSuccess message data =
     (let result = [(''success'', JBool True), (''message'', JStr message)];
          result = (if data \<noteq> JUndefined then result @ [(''data'', data)] else result)
      in JObj [(''content'', JArr [JObj [(''type'', JStr ''text''),
                                         (''text'', text_of (JSON_stringify2 (JObj result)))]])])"

fun of_opt_arr :: "jsval list option \<Rightarrow> jsval" where
  "of_opt_arr None = JUndefined"
| "of_opt_arr (Some xs) = JArr xs"

section \<open>The tool registry (tools/*.ts and index.ts)\<close>

text \<open>
  A call of a registered tool: one constructor for each \<^verbatim>\<open>server.tool\<close> registration,
  grouped by the function that registers it, with the arguments its handler receives once
  the input schema has accepted them (an optional argument is an option, an argument with
  a default is always present). Each handler is the \<^verbatim>\<open>try\<close>/\<^verbatim>\<open>catch\<close> of the source:
  the client method is awaited and its result formatted; whatever is thrown goes to
  \<open>formatError\<close>.
\<close>

datatype file_tool =
    Figma_get_file string "string option" "jsnum option" "bool option"
  | Figma_get_file_nodes string "string list" "string option" "jsnum option"
  | Figma_get_file_meta string
  | Figma_get_images string "string list" string jsnum "bool option" "bool option" "bool option" "bool option"
  | Figma_get_image_fills string

fun registerFileTools :: "runtime \<Rightarrow> errors_module \<Rightarrow> FigmaClientImpl \<Rightarrow> file_tool \<Rightarrow> jsval io" where
  "registerFileTools rt errs client (Figma_get_file file_key version' depth' branch_data') =
     catch_io (bind_io (getFile rt client file_key
            (Some \<lparr> GetFileOptions.version = version', ids = None,
                     GetFileOptions.depth = depth', GetFileOptions.geometry = None,
                     GetFileOptions.plugin_data = None,
                     GetFileOptions.branch_data = branch_data' \<rparr>))
          (\<lambda>result. return_io (formatResponse result)))
       (\<lambda>error. return_io (formatError errs error))"
| "registerFileTools rt errs client (Figma_get_file_nodes file_key ids' version' depth') =
     catch_io (bind_io (getFileNodes rt client file_key ids'
            (Some \<lparr> GetFileNodesOptions.version = version', GetFileNodesOptions.depth = depth',
                     GetFileNodesOptions.geometry = None,
                     GetFileNodesOptions.plugin_data = None \<rparr>))
          (\<lambda>result. return_io (formatResponse result)))
       (\<lambda>error. return_io (formatError errs error))"
| "registerFileTools rt errs client (Figma_get_file_meta file_key) =
     catch_io (bind_io (getFileMeta rt client file_key)
          (\<lambda>result. return_io (formatResponse result)))
       (\<lambda>error. return_io (formatError errs error))"
| "registerFileTools rt errs client (Figma_get_images file_key ids' format' scale' svg_include_id' svg_simplify_stroke' contents_only' use_absolute_bounds') =
     catch_io (bind_io (getImages rt client file_key ids'
            (Some \<lparr> scale = Some scale', format = Some format', svg_include_id = svg_include_id',
                     svg_include_node_id = None, svg_simplify_stroke = svg_simplify_stroke',
                     contents_only = contents_only', use_absolute_bounds = use_absolute_bounds',
                     GetImagesOptions.version = None \<rparr>))
          (\<lambda>result. return_io (formatResponse result)))
       (\<lambda>error. return_io (formatError errs error))"
| "registerFileTools rt errs client (Figma_get_image_fills file_key) =
     catch_io (bind_io (getImageFills rt client file_key)
          (\<lambda>result. return_io (formatResponse result)))
       (\<lambda>error. return_io (formatError errs error))"

fun name_file_tool :: "file_tool \<Rightarrow> string" where
  "name_file_tool (Figma_get_file a b c d) = ''figma_get_file''"
| "name_file_tool (Figma_get_file_nodes a b c d) = ''figma_get_file_nodes''"
| "name_file_tool (Figma_get_file_meta a) = ''figma_get_file_meta''"
| "name_file_tool (Figma_get_images a b c d e f g h) = ''figma_get_images''"
| "name_file_tool (Figma_get_image_fills a) = ''figma_get_image_fills''"

datatype comment_tool =
    Figma_get_comments string "bool option"
  | Figma_post_comment string string "string option" "string option" "jsnum option" "jsnum option"
  | Figma_delete_comment string string
  | Figma_get_comment_reactions string string "string option"
  | Figma_post_comment_reaction string string string
  | Figma_delete_comment_reaction string string string

fun registerCommentTools :: "runtime \<Rightarrow> errors_module \<Rightarrow> FigmaClientImpl \<Rightarrow> comment_tool \<Rightarrow> jsval io" where
  "registerCommentTools rt errs client (Figma_get_comments file_key as_md') =
     catch_io (bind_io (getComments rt client file_key (Some \<lparr> as_md = as_md' \<rparr>))
          (\<lambda>result. return_io (formatResponse result)))
       (\<lambda>error. return_io (formatError errs error))"
| "registerCommentTools rt errs client (Figma_post_comment file_key message comment_id' node_id x y) =
     catch_io (bind_io (postComment rt client file_key message
            (Some \<lparr> comment_id = comment_id',
                     client_meta =
                       (if truthy_str node_id \<or> x \<noteq> None \<or> y \<noteq> None
                        then Some (JObj [(''node_id'', of_opt_str node_id), (''x'', of_opt_num x),
                                         (''y'', of_opt_num y)])
                        else None) \<rparr>))
          (\<lambda>result. return_io (formatResponse result)))
       (\<lambda>error. return_io (formatError errs error))"
| "registerCommentTools rt errs client (Figma_delete_comment file_key comment_id') =
     catch_io (bind_io (deleteComment rt client file_key comment_id')
          (\<lambda>_. return_io (formatSuccess (''Comment '' @ comment_id' @ '' deleted successfully'') JUndefined)))
       (\<lambda>error. return_io (formatError errs error))"
| "registerCommentTools rt errs client (Figma_get_comment_reactions file_key comment_id' cursor') =
     catch_io (bind_io (getCommentReactions rt client file_key comment_id'
            (Some \<lparr> page_size = None, PaginationOptions.cursor = cursor' \<rparr>))
          (\<lambda>result. return_io (formatResponse result)))
       (\<lambda>error. return_io (formatError errs error))"
| "registerCommentTools rt errs client (Figma_post_comment_reaction file_key comment_id' emoji) =
     catch_io (bind_io (postCommentReaction rt client file_key comment_id' emoji)
          (\<lambda>_. return_io (formatSuccess (''Reaction '' @ emoji @ '' added to comment '' @ comment_id') JUndefined)))
       (\<lambda>error. return_io (formatError errs error))"
| "registerCommentTools rt errs client (Figma_delete_comment_reaction file_key comment_id' emoji) =
     catch_io (bind_io (deleteCommentReaction rt client file_key comment_id' emoji)
          (\<lambda>_. return_io (formatSuccess (''Reaction '' @ emoji @ '' removed from comment '' @ comment_id') JUndefined)))
       (\<lambda>error. return_io (formatError errs error))"

fun name_comment_tool :: "comment_tool \<Rightarrow> string" where
  "name_comment_tool (Figma_get_comments a b) = ''figma_get_comments''"
| "name_comment_tool (Figma_post_comment a b c d e f) = ''figma_post_comment''"
| "name_comment_tool (Figma_delete_comment a b) = ''figma_delete_comment''"
| "name_comment_tool (Figma_get_comment_reactions a b c) = ''figma_get_comment_reactions''"
| "name_comment_tool (Figma_post_comment_reaction a b c) = ''figma_post_comment_reaction''"
| "name_comment_tool (Figma_delete_comment_reaction a b c) = ''figma_delete_comment_reaction''"

datatype project_tool =
    Figma_get_team_projects string
  | Figma_get_project_files string "bool option"

fun registerProjectTools :: "runtime \<Rightarrow> errors_module \<Rightarrow> FigmaClientImpl \<Rightarrow> project_tool \<Rightarrow> jsval io" where
  "registerProjectTools rt errs client (Figma_get_team_projects team_id') =
     catch_io (bind_io (getTeamProjects rt client team_id')
          (\<lambda>result. return_io (formatResponse result)))
       (\<lambda>error. return_io (formatError errs error))"
| "registerProjectTools rt errs client (Figma_get_project_files project_id branch_data') =
     catch_io (bind_io (getProjectFiles rt client project_id (Some \<lparr> GetProjectFilesOptions.branch_data = branch_data' \<rparr>))
          (\<lambda>result. return_io (formatResponse result)))
       (\<lambda>error. return_io (formatError errs error))"

fun name_project_tool :: "project_tool \<Rightarrow> string" where
  "name_project_tool (Figma_get_team_projects a) = ''figma_get_team_projects''"
| "name_project_tool (Figma_get_project_files a b) = ''figma_get_project_files''"

datatype version_tool =
    Figma_get_file_versions string "jsnum option" "string option"

fun registerVersionTools :: "runtime \<Rightarrow> errors_module \<Rightarrow> FigmaClientImpl \<Rightarrow> version_tool \<Rightarrow> jsval io" where
  "registerVersionTools rt errs client (Figma_get_file_versions file_key page_size' cursor') =
     catch_io (bind_io (getFileVersions rt client file_key (Some \<lparr> page_size = page_size', PaginationOptions.cursor = cursor' \<rparr>))
          (\<lambda>result. return_io (formatResponse result)))
       (\<lambda>error. return_io (formatError errs error))"

fun name_version_tool :: "version_tool \<Rightarrow> string" where
  "name_version_tool (Figma_get_file_versions a b c) = ''figma_get_file_versions''"

datatype component_tool =
    Figma_get_team_components string "jsnum option" "string option"
  | Figma_get_file_components string
  | Figma_get_component string
  | Figma_get_team_component_sets string "jsnum option" "string option"
  | Figma_get_file_component_sets string
  | Figma_get_component_set string

fun registerComponentTools :: "runtime \<Rightarrow> errors_module \<Rightarrow> FigmaClientImpl \<Rightarrow> component_tool \<Rightarrow> jsval io" where
  "registerComponentTools rt errs client (Figma_get_team_components team_id' page_size' cursor') =
     catch_io (bind_io (getTeamComponents rt client team_id' (Some \<lparr> page_size = page_size', PaginationOptions.cursor = cursor' \<rparr>))
          (\<lambda>result. return_io (formatResponse result)))
       (\<lambda>error. return_io (formatError errs error))"
| "registerComponentTools rt errs client (Figma_get_file_components file_key) =
     catch_io (bind_io (getFileComponents rt client file_key)
          (\<lambda>result. return_io (formatResponse result)))
       (\<lambda>error. return_io (formatError errs error))"
| "registerComponentTools rt errs client (Figma_get_component component_key) =
     catch_io (bind_io (getComponent rt client component_key)
          (\<lambda>result. return_io (formatResponse result)))
       (\<lambda>error. return_io (formatError errs error))"
| "registerComponentTools rt errs client (Figma_get_team_component_sets team_id' page_size' cursor') =
     catch_io (bind_io (getTeamComponentSets rt client team_id' (Some \<lparr> page_size = page_size', PaginationOptions.cursor = cursor' \<rparr>))
          (\<lambda>result. return_io (formatResponse result)))
       (\<lambda>error. return_io (formatError errs error))"
| "registerComponentTools rt errs client (Figma_get_file_component_sets file_key) =
     catch_io (bind_io (getFileComponentSets rt client file_key)
          (\<lambda>result. return_io (formatResponse result)))
       (\<lambda>error. return_io (formatError errs error))"
| "registerComponentTools rt errs client (Figma_get_component_set component_set_key) =
     catch_io (bind_io (getComponentSet rt client component_set_key)
          (\<lambda>result. return_io (formatResponse result)))
       (\<lambda>error. return_io (formatError errs error))"

fun name_component_tool :: "component_tool \<Rightarrow> string" where
  "name_component_tool (Figma_get_team_components a b c) = ''figma_get_team_components''"
| "name_component_tool (Figma_get_file_components a) = ''figma_get_file_components''"
| "name_component_tool (Figma_get_component a) = ''figma_get_component''"
| "name_component_tool (Figma_get_team_component_sets a b c) = ''figma_get_team_component_sets''"
| "name_component_tool (Figma_get_file_component_sets a) = ''figma_get_file_component_sets''"
| "name_component_tool (Figma_get_component_set a) = ''figma_get_component_set''"

datatype style_tool =
    Figma_get_team_styles string "jsnum option" "string option"
  | Figma_get_file_styles string
  | Figma_get_style string

fun registerStyleTools :: "runtime \<Rightarrow> errors_module \<Rightarrow> FigmaClientImpl \<Rightarrow> style_tool \<Rightarrow> jsval io" where
  "registerStyleTools rt errs client (Figma_get_team_styles team_id' page_size' cursor') =
     catch_io (bind_io (getTeamStyles rt client team_id' (Some \<lparr> page_size = page_size', PaginationOptions.cursor = cursor' \<rparr>))
          (\<lambda>result. return_io (formatResponse result)))
       (\<lambda>error. return_io (formatError errs error))"
| "registerStyleTools rt errs client (Figma_get_file_styles file_key) =
     catch_io (bind_io (getFileStyles rt client file_key)
          (\<lambda>result. return_io (formatResponse result)))
       (\<lambda>error. return_io (formatError errs error))"
| "registerStyleTools rt errs client (Figma_get_style style_key) =
     catch_io (bind_io (getStyle rt client style_key)
          (\<lambda>result. return_io (formatResponse result)))
       (\<lambda>error. return_io (formatError errs error))"

fun name_style_tool :: "style_tool \<Rightarrow> string" where
  "name_style_tool (Figma_get_team_styles a b c) = ''figma_get_team_styles''"
| "name_style_tool (Figma_get_file_styles a) = ''figma_get_file_styles''"
| "name_style_tool (Figma_get_style a) = ''figma_get_style''"

datatype webhook_tool =
    Figma_get_webhooks "string option"
  | Figma_create_webhook string string string string "string option" "string option"
  | Figma_get_webhook string
  | Figma_update_webhook string "string option" "string option" "string option" "string option" "string option"
  | Figma_delete_webhook string
  | Figma_get_webhook_requests string

fun registerWebhookTools :: "runtime \<Rightarrow> errors_module \<Rightarrow> FigmaClientImpl \<Rightarrow> webhook_tool \<Rightarrow> jsval io" where
  "registerWebhookTools rt errs client (Figma_get_webhooks team_id') =
     catch_io (bind_io (getWebhooks rt client (Some \<lparr> team_id = team_id' \<rparr>))
          (\<lambda>result. return_io (formatResponse result)))
       (\<lambda>error. return_io (formatError errs error))"
| "registerWebhookTools rt errs client (Figma_create_webhook event_type' team_id' endpoint passcode status' description) =
     catch_io (bind_io (createWebhook rt client
            (JObj [(''event_type'', JStr event_type'), (''team_id'', JStr team_id'),
                   (''endpoint'', JStr endpoint), (''passcode'', JStr passcode),
                   (''status'', of_opt_str status'), (''description'', of_opt_str description)]))
          (\<lambda>result. return_io (formatResponse result)))
       (\<lambda>error. return_io (formatError errs error))"
| "registerWebhookTools rt errs client (Figma_get_webhook webhook_id) =
     catch_io (bind_io (getWebhook rt client webhook_id)
          (\<lambda>result. return_io (formatResponse result)))
       (\<lambda>error. return_io (formatError errs error))"
| "registerWebhookTools rt errs client (Figma_update_webhook webhook_id event_type' endpoint passcode status' description) =
     catch_io (bind_io (updateWebhook rt client webhook_id
            (JObj [(''event_type'', of_opt_str event_type'), (''endpoint'', of_opt_str endpoint),
                   (''passcode'', of_opt_str passcode), (''status'', of_opt_str status'),
                   (''description'', of_opt_str description)]))
          (\<lambda>result. return_io (formatResponse result)))
       (\<lambda>error. return_io (formatError errs error))"
| "registerWebhookTools rt errs client (Figma_delete_webhook webhook_id) =
     catch_io (bind_io (deleteWebhook rt client webhook_id)
          (\<lambda>_. return_io (formatSuccess (''Webhook '' @ webhook_id @ '' deleted successfully'') JUndefined)))
       (\<lambda>error. return_io (formatError errs error))"
| "registerWebhookTools rt errs client (Figma_get_webhook_requests webhook_id) =
     catch_io (bind_io (getWebhookRequests rt client webhook_id)
          (\<lambda>result. return_io (formatResponse result)))
       (\<lambda>error. return_io (formatError errs error))"

fun name_webhook_tool :: "webhook_tool \<Rightarrow> string" where
  "name_webhook_tool (Figma_get_webhooks a) = ''figma_get_webhooks''"
| "name_webhook_tool (Figma_create_webhook a b c d e f) = ''figma_create_webhook''"
| "name_webhook_tool (Figma_get_webhook a) = ''figma_get_webhook''"
| "name_webhook_tool (Figma_update_webhook a b c d e f) = ''figma_update_webhook''"
| "name_webhook_tool (Figma_delete_webhook a) = ''figma_delete_webhook''"
| "name_webhook_tool (Figma_get_webhook_requests a) = ''figma_get_webhook_requests''"

datatype variable_tool =
    Figma_get_local_variables string
  | Figma_get_published_variables string
  | Figma_modify_variables string "jsval list option" "jsval list option" "jsval list option" "jsval list option"

fun registerVariableTools :: "runtime \<Rightarrow> errors_module \<Rightarrow> FigmaClientImpl \<Rightarrow> variable_tool \<Rightarrow> jsval io" where
  "registerVariableTools rt errs client (Figma_get_local_variables file_key) =
     catch_io (bind_io (getLocalVariables rt client file_key)
          (\<lambda>result. return_io (formatResponse result)))
       (\<lambda>error. return_io (formatError errs error))"
| "registerVariableTools rt errs client (Figma_get_published_variables file_key) =
     catch_io (bind_io (getPublishedVariables rt client file_key)
          (\<lambda>result. return_io (formatResponse result)))
       (\<lambda>error. return_io (formatError errs error))"
| "registerVariableTools rt errs client (Figma_modify_variables file_key variable_collections variable_modes variables variable_mode_values) =
     catch_io (bind_io (postVariables rt client file_key
            (JObj [(''variableCollections'', of_opt_arr variable_collections),
                   (''variableModes'', of_opt_arr variable_modes),
                   (''variables'', of_opt_arr variables),
                   (''variableModeValues'', of_opt_arr variable_mode_values)]))
          (\<lambda>result. return_io (formatResponse result)))
       (\<lambda>error. return_io (formatError errs error))"

fun name_variable_tool :: "variable_tool \<Rightarrow> string" where
  "name_variable_tool (Figma_get_local_variables a) = ''figma_get_local_variables''"
| "name_variable_tool (Figma_get_published_variables a) = ''figma_get_published_variables''"
| "name_variable_tool (Figma_modify_variables a b c d e) = ''figma_modify_variables''"

datatype dev_resource_tool =
    Figma_get_dev_resources string "string list option"
  | Figma_create_dev_resources "jsval list"
  | Figma_update_dev_resources "jsval list"
  | Figma_delete_dev_resource string string

fun registerDevResourceTools :: "runtime \<Rightarrow> errors_module \<Rightarrow> FigmaClientImpl \<Rightarrow> dev_resource_tool \<Rightarrow> jsval io" where
  "registerDevResourceTools rt errs client (Figma_get_dev_resources file_key node_ids') =
     catch_io (bind_io (getDevResources rt client file_key (Some \<lparr> node_ids = node_ids' \<rparr>))
          (\<lambda>result. return_io (formatResponse result)))
       (\<lambda>error. return_io (formatError errs error))"
| "registerDevResourceTools rt errs client (Figma_create_dev_resources resources) =
     catch_io (bind_io (createDevResources rt client resources)
          (\<lambda>result. return_io (formatResponse result)))
       (\<lambda>error. return_io (formatError errs error))"
| "registerDevResourceTools rt errs client (Figma_update_dev_resources resources) =
     catch_io (bind_io (updateDevResources rt client resources)
          (\<lambda>result. return_io (formatResponse result)))
       (\<lambda>error. return_io (formatError errs error))"
| "registerDevResourceTools rt errs client (Figma_delete_dev_resource file_key dev_resource_id) =
     catch_io (bind_io (deleteDevResource rt client file_key dev_resource_id)
          (\<lambda>_. return_io (formatSuccess (''Dev resource '' @ dev_resource_id @ '' deleted successfully'') JUndefined)))
       (\<lambda>error. return_io (formatError errs error))"

fun name_dev_resource_tool :: "dev_resource_tool \<Rightarrow> string" where
  "name_dev_resource_tool (Figma_get_dev_resources a b) = ''figma_get_dev_resources''"
| "name_dev_resource_tool (Figma_create_dev_resources a) = ''figma_create_dev_resources''"
| "name_dev_resource_tool (Figma_update_dev_resources a) = ''figma_update_dev_resources''"
| "name_dev_resource_tool (Figma_delete_dev_resource a b) = ''figma_delete_dev_resource''"

datatype analytics_tool =
    Figma_get_activity_logs "string option" "jsnum option" "string option"
  | Figma_get_payments "string list option"
  | Figma_get_component_actions string "string option"
  | Figma_get_component_usages string "string option"
  | Figma_get_style_actions string "string option"
  | Figma_get_style_usages string "string option"

fun registerAnalyticsTools :: "runtime \<Rightarrow> errors_module \<Rightarrow> FigmaClientImpl \<Rightarrow> analytics_tool \<Rightarrow> jsval io" where
  "registerAnalyticsTools rt errs client (Figma_get_activity_logs event_type' limit' order') =
     catch_io (bind_io (getActivityLogs rt client
            (Some \<lparr> event_type = event_type', limit = limit', order = order' \<rparr>))
          (\<lambda>result. return_io (formatResponse result)))
       (\<lambda>error. return_io (formatError errs error))"
| "registerAnalyticsTools rt errs client (Figma_get_payments user_ids') =
     catch_io (bind_io (getPayments rt client (Some \<lparr> user_ids = user_ids' \<rparr>))
          (\<lambda>result. return_io (formatResponse result)))
       (\<lambda>error. return_io (formatError errs error))"
| "registerAnalyticsTools rt errs client (Figma_get_component_actions file_key cursor') =
     catch_io (bind_io (getComponentActions rt client file_key (Some \<lparr> GetAnalyticsOptions.cursor = cursor' \<rparr>))
          (\<lambda>result. return_io (formatResponse result)))
       (\<lambda>error. return_io (formatError errs error))"
| "registerAnalyticsTools rt errs client (Figma_get_component_usages file_key cursor') =
     catch_io (bind_io (getComponentUsages rt client file_key (Some \<lparr> GetAnalyticsOptions.cursor = cursor' \<rparr>))
          (\<lambda>result. return_io (formatResponse result)))
       (\<lambda>error. return_io (formatError errs error))"
| "registerAnalyticsTools rt errs client (Figma_get_style_actions file_key cursor') =
     catch_io (bind_io (getStyleActions rt client file_key (Some \<lparr> GetAnalyticsOptions.cursor = cursor' \<rparr>))
          (\<lambda>result. return_io (formatResponse result)))
       (\<lambda>error. return_io (formatError errs error))"
| "registerAnalyticsTools rt errs client (Figma_get_style_usages file_key cursor') =
     catch_io (bind_io (getStyleUsages rt client file_key (Some \<lparr> GetAnalyticsOptions.cursor = cursor' \<rparr>))
          (\<lambda>result. return_io (formatResponse result)))
       (\<lambda>error. return_io (formatError errs error))"

fun name_analytics_tool :: "analytics_tool \<Rightarrow> string" where
  "name_analytics_tool (Figma_get_activity_logs a b c) = ''figma_get_activity_logs''"
| "name_analytics_tool (Figma_get_payments a) = ''figma_get_payments''"
| "name_analytics_tool (Figma_get_component_actions a b) = ''figma_get_component_actions''"
| "name_analytics_tool (Figma_get_component_usages a b) = ''figma_get_component_usages''"
| "name_analytics_tool (Figma_get_style_actions a b) = ''figma_get_style_actions''"
| "name_analytics_tool (Figma_get_style_usages a b) = ''figma_get_style_usages''"

datatype user_tool =
    Figma_get_me

fun registerUserTools :: "runtime \<Rightarrow> errors_module \<Rightarrow> FigmaClientImpl \<Rightarrow> user_tool \<Rightarrow> jsval io" where
  "registerUserTools rt errs client Figma_get_me =
     catch_io (bind_io (getMe rt client)
          (\<lambda>result. return_io (formatResponse result)))
       (\<lambda>error. return_io (formatError errs error))"

fun name_user_tool :: "user_tool \<Rightarrow> string" where
  "name_user_tool Figma_get_me = ''figma_get_me''"

text \<open>
  The registry that \<^verbatim>\<open>createStatelessServer\<close> fills: the tools of the eleven
  registration functions and \<^verbatim>\<open>figma_test_connection\<close>, registered in place.
\<close>

datatype tool_call =
    FileTool file_tool
  | CommentTool comment_tool
  | ProjectTool project_tool
  | VersionTool version_tool
  | ComponentTool component_tool
  | StyleTool style_tool
  | WebhookTool webhook_tool
  | VariableTool variable_tool
  | DevResourceTool dev_resource_tool
  | AnalyticsTool analytics_tool
  | UserTool user_tool
  | Figma_test_connection

fun handler :: "runtime \<Rightarrow> errors_module \<Rightarrow> FigmaClientImpl \<Rightarrow> tool_call \<Rightarrow> jsval io" where
  "handler rt errs client (FileTool t) = registerFileTools rt errs client t"
| "handler rt errs client (CommentTool t) = registerCommentTools rt errs client t"
| "handler rt errs client (ProjectTool t) = registerProjectTools rt errs client t"
| "handler rt errs client (VersionTool t) = registerVersionTools rt errs client t"
| "handler rt errs client (ComponentTool t) = registerComponentTools rt errs client t"
| "handler rt errs client (StyleTool t) = registerStyleTools rt errs client t"
| "handler rt errs client (WebhookTool t) = registerWebhookTools rt errs client t"
| "handler rt errs client (VariableTool t) = registerVariableTools rt errs client t"
| "handler rt errs client (DevResourceTool t) = registerDevResourceTools rt errs client t"
| "handler rt errs client (AnalyticsTool t) = registerAnalyticsTools rt errs client t"
| "handler rt errs client (UserTool t) = registerUserTools rt errs client t"
| "handler rt errs client Figma_test_connection =
     catch_io (bind_io (testConnection rt errs client)
          (\<lambda>result. return_io
             (JObj [(''content'', JArr [JObj [(''type'', JStr ''text''),
                                             (''text'', text_of (JSON_stringify2 result))]])])))
       (\<lambda>error. return_io
          (JObj [(''content'',
                  JArr [JObj [(''type'', JStr ''text''),
                              (''text'', JStr (''Connection failed: ''
                                 @ (if instanceof_Error error then message_of errs error
                                    else ''Unknown error'')))]]),
                 (''isError'', JBool True)]))"

fun tool_name :: "tool_call \<Rightarrow> string" where
  "tool_name (FileTool t) = name_file_tool t"
| "tool_name (CommentTool t) = name_comment_tool t"
| "tool_name (ProjectTool t) = name_project_tool t"
| "tool_name (VersionTool t) = name_version_tool t"
| "tool_name (ComponentTool t) = name_component_tool t"
| "tool_name (StyleTool t) = name_style_tool t"
| "tool_name (WebhookTool t) = name_webhook_tool t"
| "tool_name (VariableTool t) = name_variable_tool t"
| "tool_name (DevResourceTool t) = name_dev_resource_tool t"
| "tool_name (AnalyticsTool t) = name_analytics_tool t"
| "tool_name (UserTool t) = name_user_tool t"
| "tool_name Figma_test_connection = ''figma_test_connection''"

subsection \<open>The envelope\<close>

text \<open>
  The shape \<^verbatim>\<open>{ content: [{ type: "text", text: <string> }], isError?: boolean }\<close>: the
  content is one block, its type is the text \<^verbatim>\<open>text\<close>, its text is a string, and
  \<^verbatim>\<open>isError\<close>, when there, is a boolean.
\<close>

definition is_text_block :: "jsval \<Rightarrow> bool" where
  "is_text_block b =
     (case b of
        JObj kvs \<Rightarrow>
          map_of kvs ''type'' = Some (JStr ''text'')
          \<and> (case map_of kvs ''text'' of Some (JStr t) \<Rightarrow> True | _ \<Rightarrow> False)
      | _ \<Rightarrow> False)"

definition is_envelope :: "jsval \<Rightarrow> bool" where
  "is_envelope r =
     (case r of
        JObj kvs \<Rightarrow>
          (case map_of kvs ''content'' of Some (JArr [b]) \<Rightarrow> is_text_block b | _ \<Rightarrow> False)
          \<and> (case map_of kvs ''isError'' of
                None \<Rightarrow> True | Some (JBool f) \<Rightarrow> True | Some JUndefined \<Rightarrow> True | _ \<Rightarrow> False)
      | _ \<Rightarrow> False)"

definition isError_flag :: "jsval \<Rightarrow> jsval" where
  "isError_flag r = (case member r ''isError'' of Inr v \<Rightarrow> v | Inl e \<Rightarrow> JUndefined)"

section \<open>The server entry (index.ts)\<close>

definition SERVER_NAME :: string where
  "SERVER_NAME = ''primrose-mcp-figma''"

definition SERVER_VERSION :: string where
  "SERVER_VERSION = ''1.0.0''"

definition registered_tools :: "string list" where
  "registered_tools =
     [''figma_get_file'', ''figma_get_file_nodes'', ''figma_get_file_meta'',
      ''figma_get_images'', ''figma_get_image_fills'', ''figma_get_comments'',
      ''figma_post_comment'', ''figma_delete_comment'', ''figma_get_comment_reactions'',
      ''figma_post_comment_reaction'', ''figma_delete_comment_reaction'',
      ''figma_get_team_projects'', ''figma_get_project_files'', ''figma_get_file_versions'',
      ''figma_get_team_components'', ''figma_get_file_components'', ''figma_get_component'',
      ''figma_get_team_component_sets'', ''figma_get_file_component_sets'',
      ''figma_get_component_set'', ''figma_get_team_styles'', ''figma_get_file_styles'',
      ''figma_get_style'', ''figma_get_webhooks'', ''figma_create_webhook'',
      ''figma_get_webhook'', ''figma_update_webhook'', ''figma_delete_webhook'',
      ''figma_get_webhook_requests'', ''figma_get_local_variables'',
      ''figma_get_published_variables'', ''figma_modify_variables'',
      ''figma_get_dev_resources'', ''figma_create_dev_resources'',
      ''figma_update_dev_resources'', ''figma_delete_dev_resource'',
      ''figma_get_activity_logs'', ''figma_get_payments'', ''figma_get_component_actions'',
      ''figma_get_component_usages'', ''figma_get_style_actions'', ''figma_get_style_usages'',
      ''figma_get_me'', ''figma_test_connection'']"

definition discovery_document :: jsval where
  "discovery_document =
     JObj [(''name'', JStr SERVER_NAME),
           (''version'', JStr SERVER_VERSION),
           (''description'', JStr ''Multi-tenant Figma MCP Server - Access the full Figma REST API''),
           (''endpoints'',
              JObj [(''mcp'', JStr ''/mcp (POST) - Streamable HTTP MCP endpoint''),
                    (''health'', JStr ''/health - Health check'')]),
           (''authentication'',
              JObj [(''description'', JStr ''Pass Figma personal access token via request header''),
                    (''required_headers'',
                       JObj [(''X-Figma-Token'', JStr ''Your Figma personal access token'')]),
                    (''optional_headers'',
                       JObj [(''X-Figma-Base-URL'', JStr ''Override the default Figma API base URL'')])]),
           (''tools'', JArr (map JStr registered_tools))]"

text \<open>
  The body of a \<^verbatim>\<open>new Response(body, init)\<close> whose body is the result of
  \<^verbatim>\<open>JSON.stringify\<close>; the status is 200 when the init gives none.
\<close>

fun body_of :: "string option \<Rightarrow> string" where
  "body_of None = []"
| "body_of (Some s) = s"

text \<open>
  The body of the 401 response, as the object that is serialised, for the error that
  \<open>validateCredentials\<close> threw.
\<close>

definition unauthorized_body :: "js_error \<Rightarrow> jsval" where
  "unauthorized_body error =
     JObj [(''error'', JStr ''Unauthorized''),
           (''message'', JStr (case error of Error m \<Rightarrow> m | SyntaxError m \<Rightarrow> m | TypeError m \<Rightarrow> m
                               | _ \<Rightarrow> ''Invalid credentials'')),
           (''required_headers'', JArr [JStr ''X-Figma-Token''])]"

text \<open>
  The \<^verbatim>\<open>fetch\<close> handler of the worker. The MCP transport
  (\<^verbatim>\<open>createMcpHandler(createStatelessServer(credentials))\<close>, from the agents package) is
  the parameter \<open>transport\<close>: given the client that \<open>createStatelessServer\<close> builds and the
  request, it answers, and the upstream calls are those of the tool handlers it runs. The
  result is the list of upstream calls issued while the request was handled, and the
  response.
\<close>

definition worker_fetch ::
    "(FigmaClientImpl \<Rightarrow> Request \<Rightarrow> fetch_call list \<times> Response) \<Rightarrow> Request
       \<Rightarrow> fetch_call list \<times> Response" where
  "worker_fetch transport req =
     (if pathname req = ''/health'' then
        ([], \<lparr> status = 200,
               resp_headers = [(''Content-Type'', ''application/json'')],
               resp_body = body_of (JSON_stringify
                 (JObj [(''status'', JStr ''ok''), (''server'', JStr SERVER_NAME)])) \<rparr>)
      else if pathname req = ''/mcp'' \<and> http_method req = ''POST'' then
        (let creds = parseTenantCredentials req in
         case validateCredentials creds of
           Inl error \<Rightarrow>
             ([], \<lparr> status = 401,
                    resp_headers = [(''Content-Type'', ''application/json'')],
                    resp_body = body_of (JSON_stringify (unauthorized_body error)) \<rparr>)
         | Inr _ \<Rightarrow> transport (createFigmaClient creds) req)
      else if pathname req = ''/sse'' then
        ([], \<lparr> status = 501, resp_headers = [],
               resp_body = ''SSE endpoint requires Durable Objects. Enable in wrangler.jsonc.'' \<rparr>)
      else
        ([], \<lparr> status = 200,
               resp_headers = [(''Content-Type'', ''application/json'')],
               resp_body = body_of (JSON_stringify discovery_document) \<rparr>))"

section \<open>Definitions for the statements and their instances\<close>

text \<open>
  \<open>discarding\<close> is the shape of a method: the request, whose result a
  \<^verbatim>\<open>Promise<void>\<close> method drops. \<open>field_value\<close> is the value of a property of a parsed
  body (\<^verbatim>\<open>undefined\<close> when the body is not an object or has no such property) and
  \<open>first_truthy\<close> the first truthy value of a list, or a default.
\<close>

definition discarding :: "bool \<Rightarrow> jsval io \<Rightarrow> jsval io" where
  "discarding v m = (if v then bind_io m (\<lambda>_. return_io JUndefined) else m)"

definition field_value :: "jsval \<Rightarrow> string \<Rightarrow> jsval" where
  "field_value v k =
     (case v of
        JObj kvs \<Rightarrow> (case map_of kvs k of None \<Rightarrow> JUndefined | Some x \<Rightarrow> x)
      | _ \<Rightarrow> JUndefined)"

fun first_truthy :: "jsval list \<Rightarrow> jsval \<Rightarrow> jsval" where
  "first_truthy [] d = d"
| "first_truthy (v # vs) d = (if truthy v then v else first_truthy vs d)"

definition shaped :: "jsval \<Rightarrow> bool" where
  "shaped res \<longleftrightarrow> is_envelope res \<or> res = formatResponse JUndefined"

text \<open>The options \<^verbatim>\<open>{depth: 2}\<close>.\<close>

definition depth_2 :: GetFileOptions where
  "depth_2 = \<lparr> GetFileOptions.version = None, ids = None, GetFileOptions.depth = Some (NumInt 2),
               GetFileOptions.geometry = None, GetFileOptions.plugin_data = None,
               GetFileOptions.branch_data = None \<rparr>"

text \<open>
  Concrete inputs: a client with a token and the default base URL; a \<^verbatim>\<open>JSON.parse\<close>
  that knows the bodies used below and rejects every other text; the runtime in which the
  upstream API answers every call with the response \<open>r\<close>; an errors module; responses
  and a request.
\<close>

definition example_client :: FigmaClientImpl where
  "example_client = createFigmaClient \<lparr> accessToken = Some ''figd_token'', baseUrl = None \<rparr>"

definition example_parse :: "string \<Rightarrow> string + jsval" where
  \<open>example_parse s =
     (if s = ''{"message":""}'' then Inr (JObj [(''message'', JStr [])])
      else if s = ''{"message":"","err":"bad"}'' then
        Inr (JObj [(''message'', JStr []), (''err'', JStr ''bad'')])
      else if s = ''{"id":"42","handle":"ada"}'' then
        Inr (JObj [(''id'', JStr ''42''), (''handle'', JStr ''ada'')])
      else if s = ''{"name":"Landing page","version":"7"}'' then
        Inr (JObj [(''name'', JStr ''Landing page''), (''version'', JStr ''7'')])
      else Inl ''Unexpected token'')\<close>

definition answering :: "Response \<Rightarrow> runtime" where
  "answering r = \<lparr> fetch = (\<lambda>call. Inr r), JSON_parse = example_parse \<rparr>"

definition example_errors :: errors_module where
  "example_errors =
     \<lparr> class_message =
         (\<lambda>e. case e of
                AuthenticationError m \<Rightarrow> m
              | ForbiddenError m \<Rightarrow> m
              | NotFoundError kind ident \<Rightarrow> kind @ '' not found: '' @ ident
              | RateLimitError m n \<Rightarrow> m
              | FigmaApiError m s \<Rightarrow> String_js m
              | _ \<Rightarrow> []),
       instanceof_FigmaApiError =
         (\<lambda>e. case e of
                AuthenticationError m \<Rightarrow> True
              | ForbiddenError m \<Rightarrow> True
              | NotFoundError kind ident \<Rightarrow> True
              | RateLimitError m n \<Rightarrow> True
              | FigmaApiError m s \<Rightarrow> True
              | _ \<Rightarrow> False),
       retryable = (\<lambda>e. case e of RateLimitError m n \<Rightarrow> True | _ \<Rightarrow> False),
       formatErrorForLogging = (\<lambda>e. JObj [(''name'', JStr ''Error'')]) \<rparr>"

definition user_response :: Response where
  \<open>user_response = \<lparr> status = 200, resp_headers = [], resp_body = ''{"id":"42","handle":"ada"}'' \<rparr>\<close>

definition file_response :: Response where
  \<open>file_response =
     \<lparr> status = 200, resp_headers = [], resp_body = ''{"name":"Landing page","version":"7"}'' \<rparr>\<close>

definition no_content_response :: Response where
  "no_content_response = \<lparr> status = 204, resp_headers = [], resp_body = ''not json'' \<rparr>"

definition unauthorized_response :: Response where
  "unauthorized_response = \<lparr> status = 401, resp_headers = [], resp_body = [] \<rparr>"

definition forbidden_response :: Response where
  "forbidden_response = \<lparr> status = 403, resp_headers = [], resp_body = [] \<rparr>"

definition not_found_response :: Response where
  "not_found_response = \<lparr> status = 404, resp_headers = [], resp_body = [] \<rparr>"

definition empty_message_response :: Response where
  \<open>empty_message_response = \<lparr> status = 500, resp_headers = [], resp_body = ''{"message":""}'' \<rparr>\<close>

definition err_response :: Response where
  \<open>err_response =
     \<lparr> status = 500, resp_headers = [], resp_body = ''{"message":"","err":"bad"}'' \<rparr>\<close>

definition http_date_response :: Response where
  "http_date_response =
     \<lparr> status = 429, resp_headers = [(''Retry-After'', ''Wed, 21 Oct 2015 07:28:00 GMT'')],
       resp_body = [] \<rparr>"

text \<open>
  A transport that, when reached, runs the handler of \<^verbatim>\<open>figma_get_me\<close> against an
  upstream that answers, and so issues an upstream call.
\<close>

definition example_transport :: "FigmaClientImpl \<Rightarrow> Request \<Rightarrow> fetch_call list \<times> Response" where
  "example_transport client req =
     (case handler (answering user_response) example_errors client (UserTool Figma_get_me) of
        (calls, res) \<Rightarrow>
          (calls, \<lparr> status = 200, resp_headers = [],
                    resp_body = (case res of Inr v \<Rightarrow> body_of (JSON_stringify v) | Inl e \<Rightarrow> []) \<rparr>))"

definition example_request :: Request where
  "example_request = \<lparr> http_method = ''POST'', pathname = ''/mcp'',
                        headers = [(''Content-Type'', ''application/json'')] \<rparr>"

section \<open>The shape of the methods\<close>

lemmas method_defs =
  getFile_def getFileNodes_def getFileMeta_def getImages_def getImageFills_def getFileVersions_def
  getComments_def postComment_def deleteComment_def getCommentReactions_def
  postCommentReaction_def deleteCommentReaction_def getMe_def getTeamProjects_def
  getProjectFiles_def getTeamComponents_def getFileComponents_def getComponent_def
  getTeamComponentSets_def getFileComponentSets_def getComponentSet_def getTeamStyles_def
  getFileStyles_def getStyle_def getWebhooks_def createWebhook_def getWebhook_def
  updateWebhook_def deleteWebhook_def getWebhookRequests_def getLocalVariables_def
  getPublishedVariables_def postVariables_def getDevResources_def createDevResources_def
  updateDevResources_def deleteDevResource_def getActivityLogs_def getPayments_def
  getComponentActions_def getComponentUsages_def getStyleActions_def getStyleUsages_def

text \<open>Every method is one call of \<open>request\<close>; the void methods drop its result.\<close>

lemma perform_file_shape:
  "\<exists>ep opts. perform_file_op rt c x = discarding (void_file_op x) (request rt c ep opts)"
  by (cases x) (auto simp: method_defs Let_def discarding_def)

lemma perform_comment_shape:
  "\<exists>ep opts. perform_comment_op rt c x = discarding (void_comment_op x) (request rt c ep opts)"
  by (cases x) (auto simp: method_defs Let_def discarding_def)

lemma perform_account_shape:
  "\<exists>ep opts. perform_account_op rt c x = discarding (void_account_op x) (request rt c ep opts)"
  by (cases x) (auto simp: method_defs Let_def discarding_def)

lemma perform_library_shape:
  "\<exists>ep opts. perform_library_op rt c x = discarding (void_library_op x) (request rt c ep opts)"
  by (cases x) (auto simp: method_defs Let_def discarding_def)

lemma perform_webhook_shape:
  "\<exists>ep opts. perform_webhook_op rt c x = discarding (void_webhook_op x) (request rt c ep opts)"
  by (cases x) (auto simp: method_defs Let_def discarding_def)

lemma perform_variable_shape:
  "\<exists>ep opts. perform_variable_op rt c x = discarding (void_variable_op x) (request rt c ep opts)"
  by (cases x) (auto simp: method_defs Let_def discarding_def)

lemma perform_analytics_shape:
  "\<exists>ep opts. perform_analytics_op rt c x = discarding (void_analytics_op x) (request rt c ep opts)"
  by (cases x) (auto simp: method_defs Let_def discarding_def)

lemma perform_shape:
  "\<exists>ep opts. perform rt c op = discarding (returns_void op) (request rt c ep opts)"
  using perform_file_shape perform_comment_shape perform_account_shape perform_library_shape
    perform_webhook_shape perform_variable_shape perform_analytics_shape
  by (cases op) simp_all

lemma snd_request:
  assumes "getAuthHeaders c = Inr auth" and "\<And>call. fetch rt call = Inr r"
  shows "snd (request rt c ep opts) = handle_response rt ep r"
  using assms by (simp add: request_def Let_def)

lemma snd_discarding:
  "snd (discarding v m) =
     (case snd m of Inl e \<Rightarrow> Inl e | Inr a \<Rightarrow> Inr (if v then JUndefined else a))"
  by (cases m) (auto simp: discarding_def bind_io_def return_io_def split: sum.splits prod.splits)

text \<open>
  With a token in the client and an upstream that answers \<open>r\<close>, the outcome of every
  operation is what \<open>handle_response\<close> makes of \<open>r\<close>.
\<close>

lemma snd_perform:
  assumes "getAuthHeaders c = Inr auth" and "\<And>call. fetch rt call = Inr r"
  shows "\<exists>ep. snd (perform rt c op) =
           (case handle_response rt ep r of
              Inl e \<Rightarrow> Inl e
            | Inr a \<Rightarrow> Inr (if returns_void op then JUndefined else a))"
proof -
  obtain ep opts where "perform rt c op = discarding (returns_void op) (request rt c ep opts)"
    using perform_shape by blast
  then show ?thesis
    using snd_request [OF assms] by (auto simp: snd_discarding)
qed

subsection \<open>The concrete inputs\<close>

lemma example_auth:
  "getAuthHeaders example_client =
     Inr [(''X-Figma-Token'', ''figd_token''), (''Content-Type'', ''application/json'')]"
  by (simp add: example_client_def createFigmaClient_def getAuthHeaders_def)

lemma example_baseUrl: "baseUrl example_client = ''https://api.figma.com''"
  by (simp add: example_client_def createFigmaClient_def FIGMA_API_BASE_URL_def)

lemma example_token: "accessToken (credentials example_client) = Some ''figd_token''"
  by (simp add: example_client_def createFigmaClient_def)

lemma fetch_answering [simp]: "fetch (answering r) call = Inr r"
  by (simp add: answering_def)

lemma parse_answering [simp]: "JSON_parse (answering r) = example_parse"
  by (simp add: answering_def)

lemma example_parse_user:
  \<open>example_parse ''{"id":"42","handle":"ada"}'' =
     Inr (JObj [(''id'', JStr ''42''), (''handle'', JStr ''ada'')])\<close>
  by (simp add: example_parse_def)

lemma example_parse_file:
  \<open>example_parse ''{"name":"Landing page","version":"7"}'' =
     Inr (JObj [(''name'', JStr ''Landing page''), (''version'', JStr ''7'')])\<close>
  by (simp add: example_parse_def)

lemma example_parse_empty_message:
  \<open>example_parse ''{"message":""}'' = Inr (JObj [(''message'', JStr [])])\<close>
  by (simp add: example_parse_def)

lemma example_parse_err:
  \<open>example_parse ''{"message":"","err":"bad"}'' =
     Inr (JObj [(''message'', JStr []), (''err'', JStr ''bad'')])\<close>
  by (simp add: example_parse_def)

lemma example_parse_not_json: "example_parse ''not json'' = Inl ''Unexpected token''"
  by (simp add: example_parse_def)

lemma example_perform:
  "\<exists>ep. snd (perform (answering r) example_client op) =
     (case handle_response (answering r) ep r of
        Inl e \<Rightarrow> Inl e
      | Inr a \<Rightarrow> Inr (if returns_void op then JUndefined else a))"
  by (rule snd_perform [OF example_auth]) simp

lemma example_getMe:
  "snd (getMe (answering r) example_client) = handle_response (answering r) ''/v1/me'' r"
  by (simp add: getMe_def snd_request [OF example_auth])

lemma example_getFile_no_options:
  "snd (getFile (answering r) example_client k
          (Some \<lparr> GetFileOptions.version = None, ids = None, GetFileOptions.depth = None,
                   GetFileOptions.geometry = None, GetFileOptions.plugin_data = None,
                   GetFileOptions.branch_data = None \<rparr>)) =
     handle_response (answering r) (''/v1/files/'' @ k) r"
  by (simp add: getFile_def Let_def snd_request [OF example_auth] opt_def set_str_def
      set_list_def set_num_defined_def set_flag_def params_toString_def query_suffix_def)

lemma example_message_authentication:
  "class_message example_errors (AuthenticationError m) = m"
  by (simp add: example_errors_def)

lemma nat_digits_500: "nat_digits 500 = ''500''"
  by code_simp

section \<open>Rate limiting\<close>

text \<open>
  On a 429 every operation raises the rate-limit error with 60 when the
  \<^verbatim>\<open>Retry-After\<close> header is absent or empty, and with \<open>parseInt\<close> of the header
  otherwise; \<open>parseInt\<close> of a run of digits is its value.
\<close>

lemma rate_limit_retry_after:
  assumes "getAuthHeaders c = Inr auth" and "\<And>call. fetch rt call = Inr r"
    and "status r = 429"
  shows "snd (perform rt c op) =
     Inl (RateLimitError ''Rate limit exceeded''
            (case Headers_get (resp_headers r) ''Retry-After'' of
               None \<Rightarrow> NumInt 60
             | Some s \<Rightarrow> if s \<noteq> [] then parseInt s else NumInt 60))"
proof -
  obtain ep where
    "snd (perform rt c op) =
       (case handle_response rt ep r of
          Inl e \<Rightarrow> Inl e | Inr a \<Rightarrow> Inr (if returns_void op then JUndefined else a))"
    using snd_perform [OF assms(1,2)] by blast
  then show ?thesis using assms(3) by (simp add: handle_response_def)
qed

lemma digit_is_no_space: "is_digit c \<Longrightarrow> \<not> is_js_space c \<and> c \<noteq> CHR ''-'' \<and> c \<noteq> CHR ''+''"
  by (auto simp: is_digit_def is_js_space_def)

lemma parseInt_digits:
  assumes "s \<noteq> []" and "\<forall>c\<in>set s. is_digit c"
  shows "parseInt s = NumInt (digits_val s)"
proof -
  obtain c cs where s: "s = c # cs" using assms(1) by (cases s) auto
  have c: "is_digit c" using assms(2) s by simp
  have tw: "takeWhile is_digit cs = cs"
    using assms(2) s by (simp add: takeWhile_eq_all_conv)
  show ?thesis
    using c digit_is_no_space [of c] by (simp add: s parseInt_def parse_unsigned_def tw)
qed

lemma parseInt_http_date: "parseInt ''Wed, 21 Oct 2015 07:28:00 GMT'' = NumNaN"
  by code_simp

lemma Headers_get_http_date:
  "Headers_get [(''Retry-After'', ''Wed, 21 Oct 2015 07:28:00 GMT'')] ''Retry-After'' =
     Some ''Wed, 21 Oct 2015 07:28:00 GMT''"
  by code_simp

text \<open>
  C3: the retry-after value of the rate-limit error is the integer parsed from the
  \<^verbatim>\<open>Retry-After\<close> header when it is numeric, and 60 in every other case. The code
  departs from this where the header is present and not a number: for the HTTP date
  \<^verbatim>\<open>Wed, 21 Oct 2015 07:28:00 GMT\<close> the error carries \<^verbatim>\<open>NaN\<close>, not 60.
\<close>

theorem retry_after_http_date_is_NaN:
  "snd (perform (answering http_date_response) example_client (AccountOp GetMe)) =
     Inl (RateLimitError ''Rate limit exceeded'' NumNaN)"
  using example_perform [of http_date_response "AccountOp GetMe"]
  by (auto simp: http_date_response_def handle_response_def Headers_get_http_date
        parseInt_http_date)

section \<open>The message of the generic API error\<close>

lemma error_message_cases:
  "error_message rt r =
     (case JSON_parse rt (resp_body r) of
        Inl m \<Rightarrow> JStr (''API error: '' @ nat_digits (status r))
      | Inr j \<Rightarrow>
          first_truthy [field_value j ''message'', field_value j ''err'', field_value j ''error'']
            (JStr (''API error: '' @ nat_digits (status r))))"
  by (cases "JSON_parse rt (resp_body r)"; cases "projr (JSON_parse rt (resp_body r))")
     (auto simp: error_message_def extract_message_def field_value_def js_or_def Let_def
           split: option.splits)

text \<open>
  C4, as amended: for every operation and every upstream response whose status is not
  2xx and not 429, 401, 403 or 404, the generic API error carries the status, and its
  message is the first of the body's \<^verbatim>\<open>message\<close>, \<^verbatim>\<open>err\<close> and \<^verbatim>\<open>error\<close> fields, in
  that order, whose value is truthy; when the body is not valid JSON, or none of the three
  fields is truthy, the message is \<^verbatim>\<open>API error: {status}\<close>.
\<close>

theorem generic_error_message:
  assumes "getAuthHeaders c = Inr auth" and "\<And>call. fetch rt call = Inr r"
    and "\<not> response_ok r" and "status r \<notin> {429, 401, 403, 404}"
  shows "\<exists>m. snd (perform rt c op) = Inl (FigmaApiError m (status r))
     \<and> (case JSON_parse rt (resp_body r) of
          Inl syntax_error \<Rightarrow> m = JStr (''API error: '' @ nat_digits (status r))
        | Inr j \<Rightarrow>
            m = first_truthy
                  [field_value j ''message'', field_value j ''err'', field_value j ''error'']
                  (JStr (''API error: '' @ nat_digits (status r))))"
proof -
  obtain ep where
    "snd (perform rt c op) =
       (case handle_response rt ep r of
          Inl e \<Rightarrow> Inl e | Inr a \<Rightarrow> Inr (if returns_void op then JUndefined else a))"
    using snd_perform [OF assms(1,2)] by blast
  then have "snd (perform rt c op) = Inl (FigmaApiError (error_message rt r) (status r))"
    using assms(3,4) by (simp add: handle_response_def)
  then show ?thesis
    by (simp add: error_message_cases split: sum.splits)
qed

theorem generic_error_message_witness:
  "snd (perform (answering err_response) example_client (AccountOp GetMe)) =
     Inl (FigmaApiError (JStr ''bad'') 500)"
  using generic_error_message [OF example_auth, of "answering err_response" err_response
          "AccountOp GetMe"]
  by (auto simp: err_response_def response_ok_def example_parse_err field_value_def)

text \<open>
  The claim as first stated fails on a field that is present and falsy: for the body
  \<^verbatim>\<open>{"message":""}\<close> with status 500 the message is \<^verbatim>\<open>API error: 500\<close>, not the value of
  the \<^verbatim>\<open>message\<close> field.
\<close>

theorem empty_message_field_is_skipped:
  "\<not> response_ok empty_message_response
   \<and> status empty_message_response \<notin> {429, 401, 403, 404}
   \<and> JSON_parse (answering empty_message_response) (resp_body empty_message_response) =
       Inr (JObj [(''message'', JStr [])])
   \<and> snd (perform (answering empty_message_response) example_client (AccountOp GetMe)) =
       Inl (FigmaApiError (JStr ''API error: 500'') 500)
   \<and> snd (perform (answering empty_message_response) example_client (AccountOp GetMe)) \<noteq>
       Inl (FigmaApiError (JStr []) 500)"
  using example_perform [of empty_message_response "AccountOp GetMe"]
  by (auto simp: empty_message_response_def response_ok_def example_parse_empty_message
        handle_response_def error_message_cases field_value_def nat_digits_500)

section \<open>Authentication, permission and not-found errors\<close>

text \<open>
  C5: for every operation, an upstream response with status 401 raises the
  authentication error, one with status 403 the forbidden error and one with status 404
  the not-found error; the kind depends on the status alone, whatever the operation is.
\<close>

theorem status_401_403_404_kind:
  assumes "getAuthHeaders c = Inr auth" and "\<And>call. fetch rt call = Inr r"
  shows "(status r = 401 \<longrightarrow> snd (perform rt c op) =
            Inl (AuthenticationError ''Authentication failed. Check your Figma personal access token.''))
       \<and> (status r = 403 \<longrightarrow> snd (perform rt c op) =
            Inl (ForbiddenError ''Access forbidden. You may not have permission to access this resource.''))
       \<and> (status r = 404 \<longrightarrow> (\<exists>ep. snd (perform rt c op) = Inl (NotFoundError ''Resource'' ep)))"
proof -
  obtain ep where
    "snd (perform rt c op) =
       (case handle_response rt ep r of
          Inl e \<Rightarrow> Inl e | Inr a \<Rightarrow> Inr (if returns_void op then JUndefined else a))"
    using snd_perform [OF assms] by blast
  then show ?thesis by (auto simp: handle_response_def)
qed

theorem status_401_403_404_kind_witness:
  "snd (perform (answering unauthorized_response) example_client
        (FileOp (GetFileMeta ''abc123''))) =
     Inl (AuthenticationError ''Authentication failed. Check your Figma personal access token.'')
   \<and> snd (perform (answering forbidden_response) example_client
        (WebhookOp (DeleteWebhook ''w1''))) =
     Inl (ForbiddenError ''Access forbidden. You may not have permission to access this resource.'')
   \<and> (\<exists>ep. snd (perform (answering not_found_response) example_client (AccountOp GetMe)) =
          Inl (NotFoundError ''Resource'' ep))"
  using status_401_403_404_kind [OF example_auth, of "answering unauthorized_response"
          unauthorized_response "FileOp (GetFileMeta ''abc123'')"]
    status_401_403_404_kind [OF example_auth, of "answering forbidden_response"
          forbidden_response "WebhookOp (DeleteWebhook ''w1'')"]
    status_401_403_404_kind [OF example_auth, of "answering not_found_response"
          not_found_response "AccountOp GetMe"]
  by (simp add: unauthorized_response_def forbidden_response_def not_found_response_def)

section \<open>Successful responses\<close>

text \<open>
  C6, as amended: for every operation and every upstream response with a 2xx status
  other than 204 whose body is valid JSON, an operation that returns a value returns the
  parsed body unchanged, and the five operations declared without a result
  (\<^verbatim>\<open>deleteComment\<close>, \<^verbatim>\<open>postCommentReaction\<close>, \<^verbatim>\<open>deleteCommentReaction\<close>,
  \<^verbatim>\<open>deleteWebhook\<close>, \<^verbatim>\<open>deleteDevResource\<close>) return no value.
\<close>

theorem returned_value_is_parsed_body:
  assumes "getAuthHeaders c = Inr auth" and "\<And>call. fetch rt call = Inr r"
    and "response_ok r" and "status r \<noteq> 204" and "JSON_parse rt (resp_body r) = Inr v"
  shows "snd (perform rt c op) = Inr (if returns_void op then JUndefined else v)"
proof -
  obtain ep where
    "snd (perform rt c op) =
       (case handle_response rt ep r of
          Inl e \<Rightarrow> Inl e | Inr a \<Rightarrow> Inr (if returns_void op then JUndefined else a))"
    using snd_perform [OF assms(1,2)] by blast
  then show ?thesis
    using assms(3-5) by (auto simp: handle_response_def response_ok_def)
qed

theorem returned_value_is_parsed_body_witness:
  "snd (perform (answering user_response) example_client (AccountOp GetMe)) =
     Inr (JObj [(''id'', JStr ''42''), (''handle'', JStr ''ada'')])"
  using returned_value_is_parsed_body [OF example_auth, of "answering user_response" user_response
          "JObj [(''id'', JStr ''42''), (''handle'', JStr ''ada'')]" "AccountOp GetMe"]
  by (simp add: user_response_def response_ok_def example_parse_user)

text \<open>
  The claim as first stated fails on the operations without a result: \<^verbatim>\<open>deleteWebhook\<close>,
  answered with status 200 and a JSON body, returns \<^verbatim>\<open>undefined\<close> and not the parsed body.
\<close>

theorem void_operation_discards_body:
  "response_ok user_response \<and> status user_response \<noteq> 204
   \<and> JSON_parse (answering user_response) (resp_body user_response) =
       Inr (JObj [(''id'', JStr ''42''), (''handle'', JStr ''ada'')])
   \<and> snd (perform (answering user_response) example_client (WebhookOp (DeleteWebhook ''w1''))) =
       Inr JUndefined
   \<and> snd (perform (answering user_response) example_client (WebhookOp (DeleteWebhook ''w1''))) \<noteq>
       Inr (JObj [(''id'', JStr ''42''), (''handle'', JStr ''ada'')])"
  using example_perform [of user_response "WebhookOp (DeleteWebhook ''w1'')"]
  by (auto simp: user_response_def response_ok_def example_parse_user handle_response_def)

text \<open>
  C7: for every operation an upstream response with status 204 yields no value, whatever
  the body is and whatever \<^verbatim>\<open>JSON.parse\<close> would make of it: the body is not parsed, and
  no parse error can arise.
\<close>

theorem status_204_no_value:
  assumes "getAuthHeaders c = Inr auth" and "\<And>call. fetch rt call = Inr r"
    and "status r = 204"
  shows "snd (perform rt c op) = Inr JUndefined"
proof -
  obtain ep where
    "snd (perform rt c op) =
       (case handle_response rt ep r of
          Inl e \<Rightarrow> Inl e | Inr a \<Rightarrow> Inr (if returns_void op then JUndefined else a))"
    using snd_perform [OF assms(1,2)] by blast
  then show ?thesis using assms(3) by (simp add: handle_response_def response_ok_def)
qed

theorem status_204_no_value_witness:
  "JSON_parse (answering no_content_response) (resp_body no_content_response) =
     Inl ''Unexpected token''
   \<and> snd (perform (answering no_content_response) example_client
        (FileOp (GetFile ''abc123'' None))) = Inr JUndefined"
  using status_204_no_value [OF example_auth, of "answering no_content_response"
          no_content_response "FileOp (GetFile ''abc123'' None)"]
  by (simp add: no_content_response_def example_parse_not_json)

section \<open>The connection test\<close>

text \<open>
  C8: \<open>testConnection\<close> never raises. When \<open>getMe\<close> succeeds it returns
  \<^verbatim>\<open>{ connected: true, message, user }\<close> with the user payload; when \<open>getMe\<close> fails it
  returns \<^verbatim>\<open>{ connected: false, message }\<close> with the message of the error, or
  \<^verbatim>\<open>Connection failed\<close> for a thrown value that is not an error. It issues the upstream
  calls of \<open>getMe\<close> and no other.
\<close>

theorem testConnection_never_raises:
  "\<exists>res. snd (testConnection rt errs c) = Inr res
     \<and> fst (testConnection rt errs c) = fst (getMe rt c)
     \<and> (case snd (getMe rt c) of
          Inr user \<Rightarrow>
            res = JObj [(''connected'', JBool True),
                        (''message'', JStr ''Successfully connected to Figma API''),
                        (''user'', user)]
        | Inl error \<Rightarrow>
            res = JObj [(''connected'', JBool False),
                        (''message'', JStr (if instanceof_Error error then message_of errs error
                                            else ''Connection failed''))])"
  by (cases "getMe rt c")
     (auto simp: testConnection_def catch_io_def bind_io_def return_io_def split: sum.splits)

theorem testConnection_never_raises_witness:
  "snd (testConnection (answering unauthorized_response) example_errors example_client) =
     Inr (JObj [(''connected'', JBool False),
                (''message'', JStr ''Authentication failed. Check your Figma personal access token.'')])
   \<and> snd (testConnection (answering user_response) example_errors example_client) =
     Inr (JObj [(''connected'', JBool True),
                (''message'', JStr ''Successfully connected to Figma API''),
                (''user'', JObj [(''id'', JStr ''42''), (''handle'', JStr ''ada'')])])"
proof -
  have "snd (getMe (answering unauthorized_response) example_client) =
          Inl (AuthenticationError ''Authentication failed. Check your Figma personal access token.'')"
    by (simp add: example_getMe handle_response_def unauthorized_response_def)
  moreover have "snd (getMe (answering user_response) example_client) =
          Inr (JObj [(''id'', JStr ''42''), (''handle'', JStr ''ada'')])"
    by (simp add: example_getMe handle_response_def user_response_def response_ok_def
        example_parse_user)
  ultimately show ?thesis
    using testConnection_never_raises
            [of "answering unauthorized_response" example_errors example_client]
      testConnection_never_raises [of "answering user_response" example_errors example_client]
    by (auto simp: example_message_authentication)
qed

section \<open>The example call of getFile\<close>

lemma depth_2_query:
  "params_toString (set_num_defined ''depth'' (Some (NumInt 2)) []) = ''depth=2''"
  by code_simp

lemma getFile_depth_2_request:
  "getFile rt c ''abc123'' (Some depth_2) = request rt c ''/v1/files/abc123?depth=2'' no_options"
  using depth_2_query
  by (simp add: getFile_def depth_2_def opt_def set_str_def set_list_def set_flag_def
      query_suffix_def Let_def)

text \<open>
  C9: on a client with a token, \<^verbatim>\<open>getFile("abc123", {depth: 2})\<close> issues exactly one
  upstream call, a \<^verbatim>\<open>GET\<close> of \<^verbatim>\<open>{base}/v1/files/abc123?depth=2\<close> with the two auth
  headers and no body, \<^verbatim>\<open>depth=2\<close> being the only query parameter; when that call is
  answered with a 2xx status other than 204 and a JSON body, the parsed body is returned.
\<close>

theorem getFile_depth_2:
  assumes "accessToken (credentials c) = Some tok" and "tok \<noteq> []"
  shows "(let call = \<lparr> url = baseUrl c @ ''/v1/files/abc123?depth=2'',
                       init = \<lparr> init_method = None, init_body = None,
                                init_headers = Some [(''X-Figma-Token'', tok),
                                                     (''Content-Type'', ''application/json'')] \<rparr> \<rparr>
          in fst (getFile rt c ''abc123'' (Some depth_2)) = [call]
           \<and> fetch_method call = ''GET''
           \<and> (\<forall>r v. fetch rt call = Inr r \<and> response_ok r \<and> status r \<noteq> 204
                  \<and> JSON_parse rt (resp_body r) = Inr v
                \<longrightarrow> snd (getFile rt c ''abc123'' (Some depth_2)) = Inr v))"
  using assms
  by (auto simp: getFile_depth_2_request request_def getAuthHeaders_def the_call_def
        no_options_def fetch_method_def spread_def handle_response_def response_ok_def Let_def
        split: sum.splits)

theorem getFile_depth_2_witness:
  "fst (getFile (answering file_response) example_client ''abc123'' (Some depth_2)) =
     [\<lparr> url = ''https://api.figma.com/v1/files/abc123?depth=2'',
        init = \<lparr> init_method = None, init_body = None,
                 init_headers = Some [(''X-Figma-Token'', ''figd_token''),
                                      (''Content-Type'', ''application/json'')] \<rparr> \<rparr>]
   \<and> snd (getFile (answering file_response) example_client ''abc123'' (Some depth_2)) =
       Inr (JObj [(''name'', JStr ''Landing page''), (''version'', JStr ''7'')])"
  using getFile_depth_2 [OF example_token, of "answering file_response"]
  by (simp add: Let_def example_baseUrl file_response_def response_ok_def example_parse_file)

section \<open>Requests without a token\<close>

lemma unauthorized_text:
  \<open>body_of (JSON_stringify (unauthorized_body
      (Error ''Missing credentials. Provide X-Figma-Token header with your Figma personal access token.''))) =
   ''{"error":"Unauthorized","message":"Missing credentials. Provide X-Figma-Token header with your Figma personal access token.","required_headers":["X-Figma-Token"]}''\<close>
  by code_simp

lemma absent_header_no_token:
  "Headers_get (headers req) ''X-Figma-Token'' = None \<Longrightarrow>
     accessToken (parseTenantCredentials req) = None"
  by (simp add: parseTenantCredentials_def or_undefined_def)

text \<open>
  C2: a POST to \<^verbatim>\<open>/mcp\<close> whose credentials have no access token is answered with status
  401 and a JSON body whose \<^verbatim>\<open>required_headers\<close> field holds \<^verbatim>\<open>X-Figma-Token\<close>; no
  upstream call is issued, and the transport, with it the client, is never reached: the
  answer is the same whatever the transport is.
\<close>

theorem missing_token_is_rejected:
  assumes "pathname req = ''/mcp''" and "http_method req = ''POST''"
    and "accessToken (parseTenantCredentials req) = None"
  shows \<open>worker_fetch transport req =
     ([], \<lparr> status = 401,
            resp_headers = [(''Content-Type'', ''application/json'')],
            resp_body = ''{"error":"Unauthorized","message":"Missing credentials. Provide X-Figma-Token header with your Figma personal access token.","required_headers":["X-Figma-Token"]}'' \<rparr>)\<close>
proof -
  have "validateCredentials (parseTenantCredentials req) =
          Inl (Error ''Missing credentials. Provide X-Figma-Token header with your Figma personal access token.'')"
    using assms(3) by (simp add: validateCredentials_def)
  then show ?thesis
    using assms(1,2) by (simp add: worker_fetch_def Let_def unauthorized_text)
qed

lemma example_request_no_token: "accessToken (parseTenantCredentials example_request) = None"
  by (simp add: example_request_def parseTenantCredentials_def Headers_get_def same_header_def
      or_undefined_def)

theorem missing_token_is_rejected_witness:
  \<open>worker_fetch example_transport example_request =
     ([], \<lparr> status = 401,
            resp_headers = [(''Content-Type'', ''application/json'')],
            resp_body = ''{"error":"Unauthorized","message":"Missing credentials. Provide X-Figma-Token header with your Figma personal access token.","required_headers":["X-Figma-Token"]}'' \<rparr>)\<close>
  using missing_token_is_rejected [of example_request example_transport] example_request_no_token
  by (simp add: example_request_def)

section \<open>The envelope of the tool handlers\<close>

lemma ser_None_iff: "ser gap ind v = None \<longleftrightarrow> v = JUndefined"
  by (cases v) simp_all

lemma text_of_stringify2: "v \<noteq> JUndefined \<Longrightarrow> \<exists>s. text_of (JSON_stringify2 v) = JStr s"
  by (cases "ser ''  '' [] v") (auto simp: JSON_stringify2_def ser_None_iff)

lemma text_of_stringify2_obj: "\<exists>s. text_of (JSON_stringify2 (JObj kvs)) = JStr s"
  by (rule text_of_stringify2) simp

lemma text_block_envelope:
  "text = JStr s \<Longrightarrow>
     is_envelope (JObj [(''content'', JArr [JObj [(''type'', JStr ''text''), (''text'', text)]])])"
  by (simp add: is_envelope_def is_text_block_def)

lemma text_block_error_envelope:
  "text = JStr s \<Longrightarrow>
     is_envelope (JObj [(''content'', JArr [JObj [(''type'', JStr ''text''), (''text'', text)]]),
                        (''isError'', JBool True)])"
  by (simp add: is_envelope_def is_text_block_def)

text \<open>
  \<open>formatError\<close> and \<open>formatSuccess\<close> always give an envelope; \<open>formatResponse\<close> gives one
  unless the data is \<^verbatim>\<open>undefined\<close>, which \<^verbatim>\<open>JSON.stringify\<close> maps to \<^verbatim>\<open>undefined\<close>.
\<close>

lemma formatResponse_envelope: "is_envelope (formatResponse d) \<longleftrightarrow> d \<noteq> JUndefined"
proof (cases "d = JUndefined")
  case True
  then show ?thesis
    by (simp add: formatResponse_def is_envelope_def is_text_block_def JSON_stringify2_def)
next
  case False
  then obtain s where "text_of (JSON_stringify2 d) = JStr s"
    using text_of_stringify2 by blast
  with False show ?thesis
    unfolding formatResponse_def by (simp add: text_block_envelope)
qed

lemma formatError_envelope: "is_envelope (formatError errs e)"
  unfolding formatError_def Let_def
  using text_of_stringify2_obj text_block_error_envelope by blast

lemma formatError_flag: "isError_flag (formatError errs e) = JBool True"
  by (simp add: formatError_def isError_flag_def Let_def)

lemma formatResponse_flag: "isError_flag (formatResponse d) = JUndefined"
  by (simp add: formatResponse_def isError_flag_def)

lemma formatSuccess_envelope: "is_envelope (formatSuccess m d)"
  unfolding formatSuccess_def Let_def
  using text_of_stringify2_obj text_block_envelope by blast

lemma try_catch_result:
  "snd (catch_io (bind_io m (\<lambda>x. return_io (f x))) (\<lambda>e. return_io (g e))) =
     Inr (case snd m of Inr a \<Rightarrow> f a | Inl e \<Rightarrow> g e)"
  by (cases m) (auto simp: catch_io_def bind_io_def return_io_def split: sum.splits)

lemma shaped_formatResponse [simp]: "shaped (formatResponse d)"
  by (cases "d = JUndefined") (simp_all add: shaped_def formatResponse_envelope)

lemma shaped_formatError [simp]: "shaped (formatError errs e)"
  by (simp add: shaped_def formatError_envelope)

lemma shaped_formatSuccess [simp]: "shaped (formatSuccess m d)"
  by (simp add: shaped_def formatSuccess_envelope)

lemma shaped_case [simp]:
  "(\<And>a. shaped (f a)) \<Longrightarrow> (\<And>e. shaped (g e)) \<Longrightarrow>
     shaped (case x of Inr a \<Rightarrow> f a | Inl e \<Rightarrow> g e)"
  by (cases x) simp_all

lemma file_tools_result:
  "\<exists>res. snd (registerFileTools rt errs c t) = Inr res \<and> shaped res"
  by (cases t) (simp_all add: try_catch_result)

lemma comment_tools_result:
  "\<exists>res. snd (registerCommentTools rt errs c t) = Inr res \<and> shaped res"
  by (cases t) (simp_all add: try_catch_result)

lemma project_tools_result:
  "\<exists>res. snd (registerProjectTools rt errs c t) = Inr res \<and> shaped res"
  by (cases t) (simp_all add: try_catch_result)

lemma version_tools_result:
  "\<exists>res. snd (registerVersionTools rt errs c t) = Inr res \<and> shaped res"
  by (cases t) (simp_all add: try_catch_result)

lemma component_tools_result:
  "\<exists>res. snd (registerComponentTools rt errs c t) = Inr res \<and> shaped res"
  by (cases t) (simp_all add: try_catch_result)

lemma style_tools_result:
  "\<exists>res. snd (registerStyleTools rt errs c t) = Inr res \<and> shaped res"
  by (cases t) (simp_all add: try_catch_result)

lemma webhook_tools_result:
  "\<exists>res. snd (registerWebhookTools rt errs c t) = Inr res \<and> shaped res"
  by (cases t) (simp_all add: try_catch_result)

lemma variable_tools_result:
  "\<exists>res. snd (registerVariableTools rt errs c t) = Inr res \<and> shaped res"
  by (cases t) (simp_all add: try_catch_result)

lemma dev_resource_tools_result:
  "\<exists>res. snd (registerDevResourceTools rt errs c t) = Inr res \<and> shaped res"
  by (cases t) (simp_all add: try_catch_result)

lemma analytics_tools_result:
  "\<exists>res. snd (registerAnalyticsTools rt errs c t) = Inr res \<and> shaped res"
  by (cases t) (simp_all add: try_catch_result)

lemma user_tools_result:
  "\<exists>res. snd (registerUserTools rt errs c t) = Inr res \<and> shaped res"
  by (cases t) (simp_all add: try_catch_result)

lemma testConnection_defined:
  "\<exists>v. snd (testConnection rt errs c) = Inr v \<and> v \<noteq> JUndefined"
  by (cases "getMe rt c"; cases "snd (getMe rt c)")
     (auto simp: testConnection_def catch_io_def bind_io_def return_io_def)

lemma test_connection_result:
  "\<exists>res. snd (handler rt errs c Figma_test_connection) = Inr res \<and> is_envelope res"
proof -
  obtain v where v: "snd (testConnection rt errs c) = Inr v" "v \<noteq> JUndefined"
    using testConnection_defined by blast
  obtain s where "text_of (JSON_stringify2 v) = JStr s"
    using text_of_stringify2 [OF v(2)] by blast
  then show ?thesis
    using v(1) by (simp add: try_catch_result text_block_envelope)
qed

text \<open>
  No handler lets an error through, and the result of every handler is an envelope
  except where it is \<open>formatResponse\<close> of \<^verbatim>\<open>undefined\<close>.
\<close>

lemma handler_result:
  "\<exists>res. snd (handler rt errs c t) = Inr res
     \<and> (is_envelope res \<or> res = formatResponse JUndefined)"
proof (cases t)
  case (FileTool x)
  then show ?thesis
    using file_tools_result [of rt errs c x] by (simp add: shaped_def)
next
  case (CommentTool x)
  then show ?thesis
    using comment_tools_result [of rt errs c x] by (simp add: shaped_def)
next
  case (ProjectTool x)
  then show ?thesis
    using project_tools_result [of rt errs c x] by (simp add: shaped_def)
next
  case (VersionTool x)
  then show ?thesis
    using version_tools_result [of rt errs c x] by (simp add: shaped_def)
next
  case (ComponentTool x)
  then show ?thesis
    using component_tools_result [of rt errs c x] by (simp add: shaped_def)
next
  case (StyleTool x)
  then show ?thesis
    using style_tools_result [of rt errs c x] by (simp add: shaped_def)
next
  case (WebhookTool x)
  then show ?thesis
    using webhook_tools_result [of rt errs c x] by (simp add: shaped_def)
next
  case (VariableTool x)
  then show ?thesis
    using variable_tools_result [of rt errs c x] by (simp add: shaped_def)
next
  case (DevResourceTool x)
  then show ?thesis
    using dev_resource_tools_result [of rt errs c x] by (simp add: shaped_def)
next
  case (AnalyticsTool x)
  then show ?thesis
    using analytics_tools_result [of rt errs c x] by (simp add: shaped_def)
next
  case (UserTool x)
  then show ?thesis
    using user_tools_result [of rt errs c x] by (simp add: shaped_def)
next
  case Figma_test_connection
  then show ?thesis
    using test_connection_result [of rt errs c] by blast
qed

text \<open>
  C1: the result of every tool handler has the shape
  \<^verbatim>\<open>{ content: [{ type: "text", text: <string> }], isError?: boolean }\<close>. The code departs
  from this where the client method resolves with \<^verbatim>\<open>undefined\<close>, as \<open>request\<close> does on
  status 204: the handler of \<^verbatim>\<open>figma_get_file\<close> then returns a block whose \<^verbatim>\<open>text\<close> is
  \<^verbatim>\<open>undefined\<close>, which is not an envelope.
\<close>

theorem get_file_on_204_has_no_text:
  "snd (handler (answering no_content_response) example_errors example_client
          (FileTool (Figma_get_file ''abc123'' None None None))) =
     Inr (JObj [(''content'', JArr [JObj [(''type'', JStr ''text''), (''text'', JUndefined)]])])
   \<and> \<not> is_envelope
         (JObj [(''content'', JArr [JObj [(''type'', JStr ''text''), (''text'', JUndefined)]])])"
  by (simp add: try_catch_result example_getFile_no_options handle_response_def
      no_content_response_def response_ok_def formatResponse_def JSON_stringify2_def
      is_envelope_def is_text_block_def)

section \<open>Credentials that validate give auth headers\<close>

lemma truthy_str_iff: "truthy_str v \<longleftrightarrow> (\<exists>s. v = Some s \<and> s \<noteq> [])"
  by (cases v) auto

text \<open>
  C10: for credentials that pass \<open>validateCredentials\<close>, \<open>getAuthHeaders\<close> does not throw
  and returns the two headers, \<^verbatim>\<open>X-Figma-Token\<close> holding the access token and
  \<^verbatim>\<open>Content-Type\<close> holding \<^verbatim>\<open>application/json\<close>; the two functions throw on exactly the
  same credentials, whatever base URL the client was built with.
\<close>

theorem validated_credentials_give_auth_headers:
  "(validateCredentials creds = Inr () \<longrightarrow>
      (\<exists>tok. accessToken creds = Some tok \<and>
         getAuthHeaders (createFigmaClient creds) =
           Inr [(''X-Figma-Token'', tok), (''Content-Type'', ''application/json'')]))
   \<and> (isl (validateCredentials creds) \<longleftrightarrow> isl (getAuthHeaders (createFigmaClient creds)))"
  by (auto simp: validateCredentials_def getAuthHeaders_def createFigmaClient_def truthy_str_iff
      split: option.splits)

theorem validated_credentials_give_auth_headers_witness:
  "validateCredentials \<lparr> accessToken = Some ''figd_1'', baseUrl = None \<rparr> = Inr ()
   \<and> getAuthHeaders (createFigmaClient \<lparr> accessToken = Some ''figd_1'', baseUrl = None \<rparr>) =
       Inr [(''X-Figma-Token'', ''figd_1''), (''Content-Type'', ''application/json'')]"
  using validated_credentials_give_auth_headers
    [of "\<lparr> accessToken = Some ''figd_1'', baseUrl = None \<rparr>"]
  by (simp add: validateCredentials_def)

end
